theory Spec2Isabelle
  imports Complex_Main
begin

section \<open>Conventions\<close>

text \<open>
  JavaScript numbers are modelled as reals and \<open>Date.now()\<close> as an integer number of
  milliseconds. Strings are lists of ASCII characters. The rendering library (its
  raycaster, camera and geometry code) is not part of the program: the intersection of
  the pointer ray with one mesh is a parameter of the model. The host's timer queue is
  an explicit list of pending callbacks, and the DOM elements the program looks up are
  optional fields, absent when \<open>getElementById\<close> would return \<open>null\<close>.
\<close>

type_synonym vec2 = "real \<times> real"
type_synonym vec3 = "real \<times> real \<times> real"

section \<open>Camera animator (cameraAnimation.js)\<close>

text \<open>
  The two setters are reached from the browser console with any argument, so their
  input is a JavaScript number in full: a finite number (a real here; the two zeros are
  not told apart), one of the two infinities, or \<open>NaN\<close>, which is also what an
  argument that is no number (\<open>undefined\<close>, a word) becomes inside \<open>Math.max\<close> and
  \<open>Math.min\<close>.
\<close>

datatype jsnum = NaN | NegInfinity | Num real | PosInfinity

text \<open>The order of the numbers; nothing compares with \<open>NaN\<close>.\<close>

fun js_le :: "jsnum \<Rightarrow> jsnum \<Rightarrow> bool" where
  "js_le NaN b = False"
| "js_le a NaN = False"
| "js_le NegInfinity b = True"
| "js_le a PosInfinity = True"
| "js_le (Num x) (Num y) = (x \<le> y)"
| "js_le a b = False"

text \<open>
  \<open>Math.max\<close> and \<open>Math.min\<close> of two arguments: \<open>NaN\<close> when either is \<open>NaN\<close>,
  else the larger (the smaller) of the two, with no rounding.
\<close>

definition Math_max :: "jsnum \<Rightarrow> jsnum \<Rightarrow> jsnum" where
  "Math_max a b = (if a = NaN \<or> b = NaN then NaN else if js_le a b then b else a)"

definition Math_min :: "jsnum \<Rightarrow> jsnum \<Rightarrow> jsnum" where
  "Math_min a b = (if a = NaN \<or> b = NaN then NaN else if js_le a b then a else b)"

record oscillation =
  enabled :: bool
  amplitude :: real
  frequency :: real

record CameraController =
  angle :: real
  radius :: jsnum
  speed :: jsnum
  targetY :: real
  lookAtTarget :: vec3
  isAnimating :: bool
  animationStartTime :: int
  verticalOscillation :: oscillation
  radiusOscillation :: oscillation

definition setSpeed :: "jsnum \<Rightarrow> CameraController \<Rightarrow> CameraController" where
  "setSpeed v c = c\<lparr>speed := Math_max (Num 0) v\<rparr>"

definition setRadius :: "jsnum \<Rightarrow> CameraController \<Rightarrow> CameraController" where
  "setRadius v c = c\<lparr>radius := Math_max (Num 2) (Math_min (Num 20) v)\<rparr>"

definition setTargetHeight :: "real \<Rightarrow> CameraController \<Rightarrow> CameraController" where
  "setTargetHeight h c = c\<lparr>targetY := h\<rparr>"

definition stop :: "CameraController \<Rightarrow> CameraController" where
  "stop c = c\<lparr>isAnimating := False\<rparr>"

definition start :: "int \<Rightarrow> CameraController \<Rightarrow> CameraController" where
  "start now c = c\<lparr>isAnimating := True, animationStartTime := now\<rparr>"

definition toggle :: "int \<Rightarrow> CameraController \<Rightarrow> CameraController" where
  "toggle now c = (if isAnimating c then stop c else start now c)"

section \<open>The chair (createProduct.js)\<close>

datatype geometry =
  BoxGeometry real real real
  | CylinderGeometry real real real

record userData =
  name :: string
  originalColor :: nat
  description :: string
  originalScale :: vec3

text \<open>A mesh: \<open>color\<close> is \<open>material.color\<close> as the hex value last set.\<close>

record mesh =
  geometry :: geometry
  position :: vec3
  color :: nat
  scale :: vec3
  userData :: userData

text \<open>
  \<open>parts\<close> is a JavaScript object used as a dictionary. Its keys are kept in insertion
  order (\<open>Object.values\<close> enumerates in that order for keys that are not array
  indices), so it is an association list.
\<close>

record Chair =
  parts :: "(string \<times> mesh) list"
  hoveredPart :: "string option"
  clickedPart :: "string option"
  animationTime :: real

text \<open>\<open>obj[k] = v\<close>: an existing key keeps its place, a new key goes last.\<close>

fun object_set :: "string \<Rightarrow> 'v \<Rightarrow> (string \<times> 'v) list \<Rightarrow> (string \<times> 'v) list" where
  "object_set k v [] = [(k, v)]"
| "object_set k v (p # ps) = (if fst p = k then (k, v) # ps else p # object_set k v ps)"

definition createPart ::
  "string \<Rightarrow> geometry \<Rightarrow> vec3 \<Rightarrow> nat \<Rightarrow> string \<Rightarrow> Chair \<Rightarrow> Chair" where
  "createPart nm geo pos col descr c =
     (let m = \<lparr>geometry = geo, position = pos, color = col, scale = (1, 1, 1),
                userData = \<lparr>name = nm, originalColor = col, description = descr,
                             originalScale = (1, 1, 1)\<rparr>\<rparr>
      in c\<lparr>parts := object_set nm m (parts c)\<rparr>)"

definition createChairComponents :: "Chair \<Rightarrow> Chair" where
  "createChairComponents =
     createPart ''right-support'' (CylinderGeometry 0.03 0.03 0.5) (1.2, 0.25, 0)
       0x654321 ''Right armrest support''
     \<circ> createPart ''left-support'' (CylinderGeometry 0.03 0.03 0.5) (-1.2, 0.25, 0)
       0x654321 ''Left armrest support''
     \<circ> createPart ''right-armrest'' (BoxGeometry 0.4 0.1 1.5) (1.2, 0.5, 0)
       0x8b4513 ''Right armrest''
     \<circ> createPart ''left-armrest'' (BoxGeometry 0.4 0.1 1.5) (-1.2, 0.5, 0)
       0x8b4513 ''Left armrest''
     \<circ> createPart ''back-right-leg'' (CylinderGeometry 0.05 0.05 1.2) (0.8, -0.6, -0.8)
       0x654321 ''Back right support leg''
     \<circ> createPart ''back-left-leg'' (CylinderGeometry 0.05 0.05 1.2) (-0.8, -0.6, -0.8)
       0x654321 ''Back left support leg''
     \<circ> createPart ''front-right-leg'' (CylinderGeometry 0.05 0.05 1.2) (0.8, -0.6, 0.8)
       0x654321 ''Front right support leg''
     \<circ> createPart ''front-left-leg'' (CylinderGeometry 0.05 0.05 1.2) (-0.8, -0.6, 0.8)
       0x654321 ''Front left support leg''
     \<circ> createPart ''backrest'' (BoxGeometry 2 2 0.2) (0, 1, -0.9)
       0xa0522d ''Ergonomic backrest''
     \<circ> createPart ''seat'' (BoxGeometry 2 0.2 2) (0, 0, 0)
       0x8b4513 ''Main seating surface''"

text \<open>The constructor: no part hovered or clicked.\<close>

definition Chair_new :: Chair where
  "Chair_new =
     createChairComponents
       \<lparr>parts = [], hoveredPart = None, clickedPart = None, animationTime = 0\<rparr>"

text \<open>
  The height of the group is not stored: the constructor sets it to 1 and every
  \<open>update\<close> sets it to the value below, which is 1 at animation time 0.
\<close>

definition group_position_y :: "Chair \<Rightarrow> real" where
  "group_position_y c = 1 + sin (animationTime c * 0.5) * 0.1"

definition getAllParts :: "Chair \<Rightarrow> mesh list" where
  "getAllParts c = map snd (parts c)"

definition getPartByName :: "string \<Rightarrow> Chair \<Rightarrow> mesh option" where
  "getPartByName nm c = map_of (parts c) nm"

text \<open>
  The body of the \<open>forEach\<close> in \<open>Chair.update\<close>, statement by statement: reset, then
  the hover effect, then the click effect.
\<close>

definition update_part :: "Chair \<Rightarrow> mesh \<Rightarrow> mesh" where
  "update_part c part =
     (let nm = name (userData part);
          p1 = part\<lparr>color := originalColor (userData part), scale := (1, 1, 1)\<rparr>;
          p2 = (if hoveredPart c = Some nm
                then p1\<lparr>color := 0x4ecdc4, scale := (1.05, 1.05, 1.05)\<rparr> else p1);
          p3 = (if clickedPart c = Some nm
                then p2\<lparr>color := 0xff6b6b, scale := (1.1, 1.1, 1.1)\<rparr> else p2)
      in p3)"

definition update :: "Chair \<Rightarrow> Chair" where
  "update c =
     c\<lparr>animationTime := animationTime c + 0.016,
       parts := map (\<lambda>(k, part). (k, update_part c part)) (parts c)\<rparr>"

section \<open>Host environment: DOM and timers\<close>

text \<open>
  A value read from a JavaScript object by \<open>obj[key]\<close>: an own string property, a
  property inherited from \<open>Object.prototype\<close> (a function, or the prototype object
  itself for \<open>__proto__\<close>), or \<open>undefined\<close>.
\<close>

datatype jsval = JString string | JInherited string | JUndefined

definition Object_prototype_keys :: "string list" where
  "Object_prototype_keys =
     [''constructor'', ''hasOwnProperty'', ''isPrototypeOf'', ''propertyIsEnumerable'',
      ''toLocaleString'', ''toString'', ''valueOf'', ''__proto__'',
      ''__defineGetter__'', ''__defineSetter__'', ''__lookupGetter__'',
      ''__lookupSetter__'']"

text \<open>Property lookup on an object literal: own properties first, then the prototype.\<close>

definition object_get :: "(string \<times> string) list \<Rightarrow> string \<Rightarrow> jsval" where
  "object_get obj k =
     (case map_of obj k of
        Some s \<Rightarrow> JString s
      | None \<Rightarrow> if k \<in> set Object_prototype_keys then JInherited k else JUndefined)"

fun truthy :: "jsval \<Rightarrow> bool" where
  "truthy (JString s) = (s \<noteq> [])"
| "truthy (JInherited k) = True"
| "truthy JUndefined = False"

text \<open>The operator \<open>||\<close>.\<close>

definition js_or :: "jsval \<Rightarrow> jsval \<Rightarrow> jsval" where
  "js_or a b = (if truthy a then a else b)"

record panel =
  display :: string
  panel_show :: bool

text \<open>
  \<open>partDescription\<close> holds the value assigned to the element's \<open>textContent\<close>; the
  DOM turns it into a string.
\<close>

record dom_state =
  boundingRect :: "real \<times> real \<times> real \<times> real"
  canvas_cursor :: string
  body_cursor :: string
  interactionPanel :: "panel option"
  partTitle :: "string option"
  partDescription :: "jsval option"

text \<open>The two callbacks the program passes to \<open>setTimeout\<close>.\<close>

datatype timer_action = ClearClickedPart | HideInteractionPanel

section \<open>The interaction handler (interaction.js)\<close>

record InteractionHandler =
  mouse :: vec2
  partDescriptions :: "(string \<times> string) list"
  lastClickTime :: int
  clickDelay :: int

definition InteractionHandler_new :: InteractionHandler where
  "InteractionHandler_new =
     \<lparr>mouse = (0, 0),
      partDescriptions =
        [(''seat'', ''The main seating surface - crafted from solid wood''),
         (''backrest'', ''Ergonomic backrest for comfortable support''),
         (''front-left-leg'', ''Front left support leg - sturdy cylindrical design''),
         (''front-right-leg'', ''Front right support leg - sturdy cylindrical design''),
         (''back-left-leg'', ''Back left support leg - sturdy cylindrical design''),
         (''back-right-leg'', ''Back right support leg - sturdy cylindrical design''),
         (''left-armrest'', ''Left armrest for comfortable arm positioning''),
         (''right-armrest'', ''Right armrest for comfortable arm positioning''),
         (''left-support'', ''Left armrest support column''),
         (''right-support'', ''Right armrest support column'')],
      lastClickTime = 0,
      clickDelay = 200\<rparr>"

text \<open>
  The whole state: the chair, the handler, the DOM, the pending timers (due time and
  callback, in the order they were scheduled) and the number of calls of
  \<open>playClickSound\<close>.
\<close>

record world =
  chair :: Chair
  handler :: InteractionHandler
  dom :: dom_state
  pendingTimers :: "(int \<times> timer_action) list"
  clickSounds :: nat

text \<open>\<open>setTimeout(f, delay)\<close> called at time \<open>now\<close>.\<close>

definition setTimeout :: "int \<Rightarrow> timer_action \<Rightarrow> int \<Rightarrow> world \<Rightarrow> world" where
  "setTimeout now f delay w = w\<lparr>pendingTimers := pendingTimers w @ [(now + delay, f)]\<rparr>"

subsection \<open>Chair methods that reach outside the chair\<close>

definition setHoveredPart :: "string option \<Rightarrow> world \<Rightarrow> world" where
  "setHoveredPart partName w =
     w\<lparr>chair := (chair w)\<lparr>hoveredPart := partName\<rparr>,
       dom := (dom w)\<lparr>body_cursor :=
         (if partName \<noteq> None \<and> partName \<noteq> Some [] then ''pointer'' else ''default'')\<rparr>\<rparr>"

definition setClickedPart :: "int \<Rightarrow> string option \<Rightarrow> world \<Rightarrow> world" where
  "setClickedPart now partName w =
     (let w1 = w\<lparr>chair := (chair w)\<lparr>clickedPart := partName\<rparr>\<rparr>
      in if partName \<noteq> None \<and> partName \<noteq> Some []
         then setTimeout now ClearClickedPart 500 w1 else w1)"

subsection \<open>Hit testing\<close>

text \<open>
  The rendering library's contract, from its documentation: \<open>intersectObjects\<close> checks
  the ray against every object of the list and returns all intersections sorted by
  distance, closest first. The parameter \<open>rc\<close> gives, for the pointer position and the
  scene as it stands (camera pose, height of the group), the distances at which the ray
  meets one mesh (none when it misses).
\<close>

type_synonym raycast = "vec2 \<Rightarrow> mesh \<Rightarrow> real list"

definition intersectObjects :: "raycast \<Rightarrow> vec2 \<Rightarrow> mesh list \<Rightarrow> (real \<times> mesh) list" where
  "intersectObjects rc m objs =
     sort_key fst (concat (map (\<lambda>obj. map (\<lambda>d. (d, obj)) (rc m obj)) objs))"

definition updateMousePosition :: "real \<times> real \<Rightarrow> world \<Rightarrow> world" where
  "updateMousePosition ev w =
     (case (ev, boundingRect (dom w)) of
        ((clientX, clientY), (rect_left, rect_top, rect_width, rect_height)) \<Rightarrow>
          w\<lparr>handler := (handler w)\<lparr>mouse :=
              (((clientX - rect_left) / rect_width) * 2 - 1,
               - ((clientY - rect_top) / rect_height) * 2 + 1)\<rparr>\<rparr>)"

definition getIntersectedObject :: "raycast \<Rightarrow> world \<Rightarrow> mesh option" where
  "getIntersectedObject rc w =
     (case intersectObjects rc (mouse (handler w)) (getAllParts (chair w)) of
        [] \<Rightarrow> None
      | hit # _ \<Rightarrow> Some (snd hit))"

definition handleMouseMove :: "raycast \<Rightarrow> real \<times> real \<Rightarrow> world \<Rightarrow> world" where
  "handleMouseMove rc ev w =
     (let w1 = updateMousePosition ev w
      in case getIntersectedObject rc w1 of
           Some obj \<Rightarrow>
             (let w2 = setHoveredPart (Some (name (userData obj))) w1
              in w2\<lparr>dom := (dom w2)\<lparr>canvas_cursor := ''pointer''\<rparr>\<rparr>)
         | None \<Rightarrow>
             (let w2 = setHoveredPart None w1
              in w2\<lparr>dom := (dom w2)\<lparr>canvas_cursor := ''default''\<rparr>\<rparr>))"

subsection \<open>The information panel\<close>

fun split_hyphen :: "string \<Rightarrow> string list" where
  "split_hyphen [] = [[]]"
| "split_hyphen (c # cs) =
     (if c = CHR ''-'' then [] # split_hyphen cs
      else case split_hyphen cs of
             [] \<Rightarrow> [[c]]
           | word # others \<Rightarrow> (c # word) # others)"

fun join_space :: "string list \<Rightarrow> string" where
  "join_space [] = []"
| "join_space [word] = word"
| "join_space (word # others) = word @ '' '' @ join_space others"

definition toUpperCase_char :: "char \<Rightarrow> char" where
  "toUpperCase_char c =
     (case map_of (zip ''abcdefghijklmnopqrstuvwxyz'' ''ABCDEFGHIJKLMNOPQRSTUVWXYZ'') c of
        Some u \<Rightarrow> u
      | None \<Rightarrow> c)"

text \<open>\<open>word.charAt(0).toUpperCase() + word.slice(1)\<close>; both parts are empty for \<open>""\<close>.\<close>

definition capitalize :: "string \<Rightarrow> string" where
  "capitalize word = map toUpperCase_char (take 1 word) @ drop 1 word"

definition formatPartName :: "string \<Rightarrow> string" where
  "formatPartName partName = join_space (map capitalize (split_hyphen partName))"

definition hideInteractionPanel :: "world \<Rightarrow> world" where
  "hideInteractionPanel w =
     (case interactionPanel (dom w) of
        Some p \<Rightarrow>
          w\<lparr>dom := (dom w)\<lparr>interactionPanel :=
              Some (p\<lparr>display := ''none'', panel_show := False\<rparr>)\<rparr>\<rparr>
      | None \<Rightarrow> w)"

definition showInteractionPanel :: "int \<Rightarrow> string \<Rightarrow> world \<Rightarrow> world" where
  "showInteractionPanel now partName w =
     (case (interactionPanel (dom w), partTitle (dom w), partDescription (dom w)) of
        (Some p, Some _, Some _) \<Rightarrow>
          (let w1 = w\<lparr>dom := (dom w)\<lparr>
                      partTitle := Some (formatPartName partName),
                      partDescription := Some
                        (js_or (object_get (partDescriptions (handler w)) partName)
                               (JString ''Chair component'')),
                      interactionPanel := Some (p\<lparr>display := ''block'', panel_show := True\<rparr>)\<rparr>\<rparr>
           in setTimeout now HideInteractionPanel 5000 w1)
      | _ \<Rightarrow> w)"

definition playClickSound :: "world \<Rightarrow> world" where
  "playClickSound w = w\<lparr>clickSounds := Suc (clickSounds w)\<rparr>"

subsection \<open>Clicks\<close>

definition handleClick :: "raycast \<Rightarrow> int \<Rightarrow> real \<times> real \<Rightarrow> world \<Rightarrow> world" where
  "handleClick rc currentTime ev w =
     (if currentTime - lastClickTime (handler w) < clickDelay (handler w) then w
      else
        (let w1 = w\<lparr>handler := (handler w)\<lparr>lastClickTime := currentTime\<rparr>\<rparr>;
             w2 = updateMousePosition ev w1
         in case getIntersectedObject rc w2 of
              Some obj \<Rightarrow>
                (let partName = name (userData obj);
                     w3 = setClickedPart currentTime (Some partName) w2;
                     w4 = showInteractionPanel currentTime partName w3
                 in playClickSound w4)
            | None \<Rightarrow> hideInteractionPanel w2))"

section \<open>Running the program\<close>

fun fire_timer :: "timer_action \<Rightarrow> world \<Rightarrow> world" where
  "fire_timer ClearClickedPart w = w\<lparr>chair := (chair w)\<lparr>clickedPart := None\<rparr>\<rparr>"
| "fire_timer HideInteractionPanel w = hideInteractionPanel w"

text \<open>
  Letting the clock reach \<open>t\<close>: every pending callback due by then runs once, earliest
  first (callbacks due together run in the order they were scheduled), and leaves the
  queue.
\<close>

fun fire_all :: "(int \<times> timer_action) list \<Rightarrow> world \<Rightarrow> world" where
  "fire_all [] w = w"
| "fire_all ((d, f) # ts) w = fire_all ts (fire_timer f w)"

definition advance :: "int \<Rightarrow> world \<Rightarrow> world" where
  "advance t w =
     (let due = filter (\<lambda>(d, f). d \<le> t) (pendingTimers w);
          later = filter (\<lambda>(d, f). \<not> d \<le> t) (pendingTimers w)
      in fire_all (sort_key fst due) (w\<lparr>pendingTimers := later\<rparr>))"

datatype event = MouseMove real real | Click real real | AnimationFrame

fun is_MouseMove :: "event \<Rightarrow> bool" where
  "is_MouseMove (MouseMove x y) = True"
| "is_MouseMove _ = False"

text \<open>
  The listeners of main.js: a click and a mouse move go to the handler, an animation
  frame updates the chair.
\<close>

fun handle_event :: "raycast \<Rightarrow> int \<Rightarrow> event \<Rightarrow> world \<Rightarrow> world" where
  "handle_event rc t (MouseMove x y) w = handleMouseMove rc (x, y) w"
| "handle_event rc t (Click x y) w = handleClick rc t (x, y) w"
| "handle_event rc t AnimationFrame w = w\<lparr>chair := update (chair w)\<rparr>"

text \<open>
  A run: at each event's time the due timers fire first, then the event is handled.
  The scene \<open>sc\<close> gives the ray parameter at each time, since the camera moves.
\<close>

definition run :: "(int \<Rightarrow> raycast) \<Rightarrow> (int \<times> event) list \<Rightarrow> world \<Rightarrow> world" where
  "run sc evs w = foldl (\<lambda>w' (t, e). handle_event (sc t) t e (advance t w')) w evs"

section \<open>A concrete scene\<close>

text \<open>
  The freshly started viewer on an 800 by 600 canvas with the panel elements present,
  and a ray that meets the seat (at distance 4) on the left half of the canvas and the
  backrest (entering at 6, leaving at 6.2) on the left three quarters.
\<close>

definition world0 :: world where
  "world0 =
     \<lparr>chair = Chair_new,
      handler = InteractionHandler_new,
      dom = \<lparr>boundingRect = (0, 0, 800, 600), canvas_cursor = ''default'',
             body_cursor = ''default'',
             interactionPanel = Some \<lparr>display = ''none'', panel_show = False\<rparr>,
             partTitle = Some [], partDescription = Some (JString [])\<rparr>,
      pendingTimers = [],
      clickSounds = 0\<rparr>"

definition rc0 :: raycast where
  "rc0 m obj =
     (if name (userData obj) = ''seat'' \<and> fst m < 0 then [4]
      else if name (userData obj) = ''backrest'' \<and> fst m < 1 / 2 then [6.2, 6]
      else [])"

definition scene0 :: "int \<Rightarrow> raycast" where
  "scene0 t = rc0"

text \<open>The seat and the backrest as the constructor builds them.\<close>

definition seat0 :: mesh where
  "seat0 =
     \<lparr>geometry = BoxGeometry 2 0.2 2, position = (0, 0, 0), color = 0x8b4513,
      scale = (1, 1, 1),
      userData = \<lparr>name = ''seat'', originalColor = 0x8b4513,
                   description = ''Main seating surface'', originalScale = (1, 1, 1)\<rparr>\<rparr>"

definition backrest0 :: mesh where
  "backrest0 =
     \<lparr>geometry = BoxGeometry 2 2 0.2, position = (0, 1, -0.9), color = 0xa0522d,
      scale = (1, 1, 1),
      userData = \<lparr>name = ''backrest'', originalColor = 0xa0522d,
                   description = ''Ergonomic backrest'', originalScale = (1, 1, 1)\<rparr>\<rparr>"

text \<open>The three DOM elements of the information panel are all present.\<close>

definition panel_ready :: "world \<Rightarrow> bool" where
  "panel_ready w \<longleftrightarrow>
     interactionPanel (dom w) \<noteq> None \<and> partTitle (dom w) \<noteq> None
     \<and> partDescription (dom w) \<noteq> None"

text \<open>The two states the program puts a present panel in.\<close>

definition hidden :: "panel \<Rightarrow> panel" where
  "hidden p = p\<lparr>display := ''none'', panel_show := False\<rparr>"

definition shown :: "panel \<Rightarrow> panel" where
  "shown p = p\<lparr>display := ''block'', panel_show := True\<rparr>"

text \<open>The visual state of the chair: colour and scale of every part, in order.\<close>

definition visual :: "Chair \<Rightarrow> (nat \<times> vec3) list" where
  "visual c = map (\<lambda>(k, part). (color part, scale part)) (parts c)"

text \<open>
  The styling as the specification words it, a function of the two flags and the base
  colour and scale: selection styling, else hover styling, else the base values.
\<close>

definition styleOf :: "bool \<Rightarrow> bool \<Rightarrow> nat \<Rightarrow> vec3 \<Rightarrow> nat \<times> vec3" where
  "styleOf isHovered isSelected baseColor baseScale =
     (if isSelected then (0xff6b6b, (1.1, 1.1, 1.1))
      else if isHovered then (0x4ecdc4, (1.05, 1.05, 1.05))
      else (baseColor, baseScale))"

text \<open>
  Title case as the specification words it, read in one pass: a hyphen becomes a space,
  and the first character of each word is capitalised.
\<close>

fun title_case :: "bool \<Rightarrow> string \<Rightarrow> string" where
  "title_case first [] = []"
| "title_case first (c # cs) =
     (if c = CHR ''-'' then CHR '' '' # title_case True cs
      else (if first then toUpperCase_char c else c) # title_case False cs)"

section \<open>Timer callbacks and the passing of time\<close>

lemma hide_chair [simp]: "chair (hideInteractionPanel w) = chair w"
  and hide_handler [simp]: "handler (hideInteractionPanel w) = handler w"
  and hide_timers [simp]: "pendingTimers (hideInteractionPanel w) = pendingTimers w"
  and hide_sounds [simp]: "clickSounds (hideInteractionPanel w) = clickSounds w"
  and hide_rect [simp]: "boundingRect (dom (hideInteractionPanel w)) = boundingRect (dom w)"
  and hide_panel: "interactionPanel (dom (hideInteractionPanel w)) =
      map_option hidden (interactionPanel (dom w))"
  by (simp_all add: hideInteractionPanel_def hidden_def split: option.splits)

lemma fire_chair_fields [simp]:
  "hoveredPart (chair (fire_timer f w)) = hoveredPart (chair w)"
  "parts (chair (fire_timer f w)) = parts (chair w)"
  "animationTime (chair (fire_timer f w)) = animationTime (chair w)"
  "handler (fire_timer f w) = handler w"
  "pendingTimers (fire_timer f w) = pendingTimers w"
  "clickSounds (fire_timer f w) = clickSounds w"
  "boundingRect (dom (fire_timer f w)) = boundingRect (dom w)"
  by (cases f; simp)+

lemma fire_clicked:
  "clickedPart (chair (fire_timer f w)) = (if f = ClearClickedPart then None else clickedPart (chair w))"
  by (cases f) simp_all

lemma fire_panel:
  "interactionPanel (dom (fire_timer f w)) =
     (if f = HideInteractionPanel
      then map_option hidden (interactionPanel (dom w))
      else interactionPanel (dom w))"
  by (cases f) (simp_all add: hide_panel)

lemma fire_all_fields [simp]:
  "hoveredPart (chair (fire_all ts w)) = hoveredPart (chair w)"
  "parts (chair (fire_all ts w)) = parts (chair w)"
  "animationTime (chair (fire_all ts w)) = animationTime (chair w)"
  "handler (fire_all ts w) = handler w"
  "pendingTimers (fire_all ts w) = pendingTimers w"
  "clickSounds (fire_all ts w) = clickSounds w"
  "boundingRect (dom (fire_all ts w)) = boundingRect (dom w)"
  by (induction ts arbitrary: w; auto)+

lemma fire_all_clicked:
  "clickedPart (chair (fire_all ts w)) =
     (if ClearClickedPart \<in> snd ` set ts then None else clickedPart (chair w))"
  by (induction ts arbitrary: w) (auto simp: fire_clicked)

lemma hide_twice:
  "map_option hidden (map_option hidden x) = map_option hidden x"
  by (cases x) (simp_all add: hidden_def)

lemma fire_all_panel:
  "interactionPanel (dom (fire_all ts w)) =
     (if HideInteractionPanel \<in> snd ` set ts
      then map_option hidden (interactionPanel (dom w))
      else interactionPanel (dom w))"
proof (induction ts arbitrary: w)
  case Nil
  show ?case by simp
next
  case (Cons x ts)
  show ?case
    by (cases x; cases "snd x") (auto simp: Cons.IH fire_panel hide_panel hide_twice)
qed

lemma advance_fire_all:
  "advance t w = fire_all (sort_key fst (filter (\<lambda>(d, f). d \<le> t) (pendingTimers w)))
     (w\<lparr>pendingTimers := filter (\<lambda>(d, f). \<not> d \<le> t) (pendingTimers w)\<rparr>)"
  by (simp add: advance_def Let_def)

lemma advance_fields [simp]:
  "hoveredPart (chair (advance t w)) = hoveredPart (chair w)"
  "parts (chair (advance t w)) = parts (chair w)"
  "animationTime (chair (advance t w)) = animationTime (chair w)"
  "handler (advance t w) = handler w"
  "clickSounds (advance t w) = clickSounds w"
  "boundingRect (dom (advance t w)) = boundingRect (dom w)"
  by (simp_all add: advance_fire_all)

lemma advance_timers:
  "pendingTimers (advance t w) = filter (\<lambda>(d, f). \<not> d \<le> t) (pendingTimers w)"
  by (simp add: advance_fire_all)

lemma due_image:
  "f \<in> snd ` set (sort_key fst (filter (\<lambda>(d, f). d \<le> t) ts)) \<longleftrightarrow> (\<exists>d\<le>t. (d, f) \<in> set ts)"
  by force

lemma advance_clicked:
  "clickedPart (chair (advance t w)) =
     (if \<exists>d\<le>t. (d, ClearClickedPart) \<in> set (pendingTimers w) then None else clickedPart (chair w))"
  unfolding advance_fire_all fire_all_clicked due_image by auto

lemma advance_panel:
  "interactionPanel (dom (advance t w)) =
     (if \<exists>d\<le>t. (d, HideInteractionPanel) \<in> set (pendingTimers w)
      then map_option hidden (interactionPanel (dom w))
      else interactionPanel (dom w))"
  unfolding advance_fire_all fire_all_panel due_image by auto

section \<open>What each operation leaves alone\<close>

lemma ump_fields [simp]:
  "chair (updateMousePosition ev w) = chair w"
  "dom (updateMousePosition ev w) = dom w"
  "pendingTimers (updateMousePosition ev w) = pendingTimers w"
  "clickSounds (updateMousePosition ev w) = clickSounds w"
  "lastClickTime (handler (updateMousePosition ev w)) = lastClickTime (handler w)"
  "clickDelay (handler (updateMousePosition ev w)) = clickDelay (handler w)"
  "partDescriptions (handler (updateMousePosition ev w)) = partDescriptions (handler w)"
  by (simp_all add: updateMousePosition_def split_beta)

lemma ump_mouse_cong:
  "boundingRect (dom w) = boundingRect (dom w') \<Longrightarrow>
   mouse (handler (updateMousePosition ev w)) = mouse (handler (updateMousePosition ev w'))"
  by (simp add: updateMousePosition_def split_beta)

lemma gio_cong:
  "mouse (handler w) = mouse (handler w') \<Longrightarrow> parts (chair w) = parts (chair w') \<Longrightarrow>
   getIntersectedObject rc w = getIntersectedObject rc w'"
  unfolding getIntersectedObject_def getAllParts_def by simp

lemma hit_cong:
  "boundingRect (dom w) = boundingRect (dom w') \<Longrightarrow> parts (chair w) = parts (chair w') \<Longrightarrow>
   getIntersectedObject rc (updateMousePosition ev w) =
   getIntersectedObject rc (updateMousePosition ev w')"
proof (rule gio_cong)
  assume "boundingRect (dom w) = boundingRect (dom w')"
  then show "mouse (handler (updateMousePosition ev w)) = mouse (handler (updateMousePosition ev w'))"
    by (rule ump_mouse_cong)
next
  assume "parts (chair w) = parts (chair w')"
  then show "parts (chair (updateMousePosition ev w)) = parts (chair (updateMousePosition ev w'))"
    by simp
qed

lemma shp_fields [simp]:
  "chair (setHoveredPart p w) = (chair w)\<lparr>hoveredPart := p\<rparr>"
  "handler (setHoveredPart p w) = handler w"
  "pendingTimers (setHoveredPart p w) = pendingTimers w"
  "clickSounds (setHoveredPart p w) = clickSounds w"
  "boundingRect (dom (setHoveredPart p w)) = boundingRect (dom w)"
  "interactionPanel (dom (setHoveredPart p w)) = interactionPanel (dom w)"
  by (simp_all add: setHoveredPart_def)

lemma scp_fields [simp]:
  "chair (setClickedPart now p w) = (chair w)\<lparr>clickedPart := p\<rparr>"
  "handler (setClickedPart now p w) = handler w"
  "dom (setClickedPart now p w) = dom w"
  "clickSounds (setClickedPart now p w) = clickSounds w"
  by (simp_all add: setClickedPart_def setTimeout_def Let_def)

lemma scp_timers:
  "pendingTimers (setClickedPart now p w) =
     pendingTimers w @ (if p \<noteq> None \<and> p \<noteq> Some [] then [(now + 500, ClearClickedPart)] else [])"
  by (simp add: setClickedPart_def setTimeout_def Let_def)

lemma sip_fields [simp]:
  "chair (showInteractionPanel now nm w) = chair w"
  "handler (showInteractionPanel now nm w) = handler w"
  "clickSounds (showInteractionPanel now nm w) = clickSounds w"
  "boundingRect (dom (showInteractionPanel now nm w)) = boundingRect (dom w)"
  by (simp_all add: showInteractionPanel_def setTimeout_def Let_def split: option.splits)

lemma sip_timers:
  "pendingTimers (showInteractionPanel now nm w) =
     pendingTimers w @ (if panel_ready w then [(now + 5000, HideInteractionPanel)] else [])"
  by (simp add: showInteractionPanel_def setTimeout_def Let_def panel_ready_def shown_def split: option.splits)

lemma sip_panel:
  "interactionPanel (dom (showInteractionPanel now nm w)) =
     (if panel_ready w
      then map_option shown (interactionPanel (dom w))
      else interactionPanel (dom w))"
  by (simp add: showInteractionPanel_def setTimeout_def Let_def panel_ready_def shown_def split: option.splits)

lemma sip_content:
  "panel_ready w \<Longrightarrow>
   partTitle (dom (showInteractionPanel now nm w)) = Some (formatPartName nm) \<and>
   partDescription (dom (showInteractionPanel now nm w)) =
     Some (js_or (object_get (partDescriptions (handler w)) nm) (JString ''Chair component''))"
  by (auto simp: showInteractionPanel_def setTimeout_def Let_def panel_ready_def split: option.splits)

lemma pcs_fields [simp]:
  "chair (playClickSound w) = chair w"
  "handler (playClickSound w) = handler w"
  "dom (playClickSound w) = dom w"
  "pendingTimers (playClickSound w) = pendingTimers w"
  "clickSounds (playClickSound w) = Suc (clickSounds w)"
  by (simp_all add: playClickSound_def)

section \<open>The three outcomes of a click\<close>

lemma click_ignored:
  "now - lastClickTime (handler w) < clickDelay (handler w) \<Longrightarrow> handleClick rc now ev w = w"
  by (simp add: handleClick_def)

lemma click_hit_pre:
  "getIntersectedObject rc
     (updateMousePosition ev (w\<lparr>handler := (handler w)\<lparr>lastClickTime := now\<rparr>\<rparr>)) =
   getIntersectedObject rc (updateMousePosition ev w)"
  by (rule hit_cong) simp_all

lemma click_hit:
  assumes "\<not> now - lastClickTime (handler w) < clickDelay (handler w)"
    and "getIntersectedObject rc (updateMousePosition ev w) = Some obj"
  shows "handleClick rc now ev w =
    playClickSound (showInteractionPanel now (name (userData obj))
      (setClickedPart now (Some (name (userData obj)))
        (updateMousePosition ev (w\<lparr>handler := (handler w)\<lparr>lastClickTime := now\<rparr>\<rparr>))))"
  using assms by (simp add: handleClick_def Let_def click_hit_pre)

lemma click_miss:
  assumes "\<not> now - lastClickTime (handler w) < clickDelay (handler w)"
    and "getIntersectedObject rc (updateMousePosition ev w) = None"
  shows "handleClick rc now ev w =
    hideInteractionPanel (updateMousePosition ev (w\<lparr>handler := (handler w)\<lparr>lastClickTime := now\<rparr>\<rparr>))"
  using assms by (simp add: handleClick_def Let_def click_hit_pre)

lemma click_time:
  "\<not> now - lastClickTime (handler w) < clickDelay (handler w) \<Longrightarrow>
   lastClickTime (handler (handleClick rc now ev w)) = now"
  by (cases "getIntersectedObject rc (updateMousePosition ev w)")
     (simp_all add: click_hit click_miss)

lemma click_hovered [simp]:
  "hoveredPart (chair (handleClick rc now ev w)) = hoveredPart (chair w)"
  by (cases "now - lastClickTime (handler w) < clickDelay (handler w)";
      cases "getIntersectedObject rc (updateMousePosition ev w)")
     (simp_all add: click_hit click_miss click_ignored)

lemma click_delay [simp]:
  "clickDelay (handler (handleClick rc now ev w)) = clickDelay (handler w)"
  by (cases "now - lastClickTime (handler w) < clickDelay (handler w)";
      cases "getIntersectedObject rc (updateMousePosition ev w)")
     (simp_all add: click_hit click_miss click_ignored)

lemma click_parts [simp]:
  "parts (chair (handleClick rc now ev w)) = parts (chair w)"
  by (cases "now - lastClickTime (handler w) < clickDelay (handler w)";
      cases "getIntersectedObject rc (updateMousePosition ev w)")
     (simp_all add: click_hit click_miss click_ignored)

lemma click_rect [simp]:
  "boundingRect (dom (handleClick rc now ev w)) = boundingRect (dom w)"
  by (cases "now - lastClickTime (handler w) < clickDelay (handler w)";
      cases "getIntersectedObject rc (updateMousePosition ev w)")
     (simp_all add: click_hit click_miss click_ignored)

lemma click_hit_timers:
  assumes "\<not> now - lastClickTime (handler w) < clickDelay (handler w)"
    and "getIntersectedObject rc (updateMousePosition ev w) = Some obj"
  shows "pendingTimers (handleClick rc now ev w) =
     pendingTimers w
     @ (if name (userData obj) \<noteq> [] then [(now + 500, ClearClickedPart)] else [])
     @ (if panel_ready w then [(now + 5000, HideInteractionPanel)] else [])"
  using assms by (simp add: click_hit sip_timers scp_timers panel_ready_def)

lemma click_hit_clicked:
  assumes "\<not> now - lastClickTime (handler w) < clickDelay (handler w)"
    and "getIntersectedObject rc (updateMousePosition ev w) = Some obj"
  shows "clickedPart (chair (handleClick rc now ev w)) = Some (name (userData obj))"
  using assms by (simp add: click_hit)

section \<open>Clicks are debounced\<close>

text \<open>
  C2. With the click delay at its constructor value of 200 ms: a click that comes less
  than 200 ms after the last accepted click leaves the whole state as it was (selection,
  hover, panel, timers, sound count and the time of the last accepted click). Any other
  click is accepted: the time of the last accepted click becomes the click's time, and
  the click is processed (the part under the pointer is selected, its panel shown and
  the click sound played, or the panel is hidden when nothing is under the pointer).
\<close>

theorem click_debounce:
  assumes "clickDelay (handler w) = 200"
  shows "(now - lastClickTime (handler w) < 200 \<longrightarrow> handleClick rc now ev w = w)
     \<and> (200 \<le> now - lastClickTime (handler w) \<longrightarrow>
          lastClickTime (handler (handleClick rc now ev w)) = now
          \<and> handleClick rc now ev w =
              (case getIntersectedObject rc (updateMousePosition ev w) of
                 Some obj \<Rightarrow>
                   playClickSound (showInteractionPanel now (name (userData obj))
                     (setClickedPart now (Some (name (userData obj)))
                       (updateMousePosition ev (w\<lparr>handler := (handler w)\<lparr>lastClickTime := now\<rparr>\<rparr>))))
               | None \<Rightarrow>
                   hideInteractionPanel
                     (updateMousePosition ev (w\<lparr>handler := (handler w)\<lparr>lastClickTime := now\<rparr>\<rparr>))))"
  using assms
  by (cases "getIntersectedObject rc (updateMousePosition ev w)")
     (simp_all add: click_ignored click_time click_hit click_miss)

section \<open>A click on empty space\<close>

text \<open>
  C9. An accepted click whose hit test returns no part hides the information panel at
  once and leaves the selected part and the hovered part as they were; indeed the whole
  chair, the pending timers and the sound count are unchanged, and in the DOM only the
  panel changes.
\<close>

theorem empty_click_frame:
  assumes "\<not> now - lastClickTime (handler w) < clickDelay (handler w)"
    and "getIntersectedObject rc (updateMousePosition ev w) = None"
  shows "clickedPart (chair (handleClick rc now ev w)) = clickedPart (chair w)
     \<and> hoveredPart (chair (handleClick rc now ev w)) = hoveredPart (chair w)
     \<and> chair (handleClick rc now ev w) = chair w
     \<and> pendingTimers (handleClick rc now ev w) = pendingTimers w
     \<and> clickSounds (handleClick rc now ev w) = clickSounds w
     \<and> interactionPanel (dom (handleClick rc now ev w)) =
         map_option hidden (interactionPanel (dom w))
     \<and> dom (handleClick rc now ev w) =
         (dom w)\<lparr>interactionPanel := interactionPanel (dom (handleClick rc now ev w))\<rparr>"
  using assms
  by (simp add: click_miss hide_panel) (simp add: hideInteractionPanel_def hidden_def split: option.splits)

section \<open>Hover changes only on pointer moves\<close>

lemma event_hovered:
  "\<not> is_MouseMove e \<Longrightarrow> hoveredPart (chair (handle_event rc t e w)) = hoveredPart (chair w)"
  by (cases e) (simp_all add: update_def)

lemma run_snoc:
  "run sc (evs @ [(t, e)]) w = handle_event (sc t) t e (advance t (run sc evs w))"
  by (simp add: run_def)

lemma run_hovered:
  "list_all (\<lambda>(t, e). \<not> is_MouseMove e) evs \<Longrightarrow>
   hoveredPart (chair (run sc evs w)) = hoveredPart (chair w)"
proof (induction evs rule: rev_induct)
  case Nil
  show ?case by (simp add: run_def)
next
  case (snoc x evs)
  obtain t e where x: "x = (t, e)" by (cases x)
  from snoc.prems x have "\<not> is_MouseMove e" and "list_all (\<lambda>(t, e). \<not> is_MouseMove e) evs"
    by simp_all
  with snoc.IH show ?case
    by (simp add: x run_snoc event_hovered)
qed

text \<open>
  C10. Only the processing of a pointer move changes the hovered part: an event that is
  not a pointer move (a click, an animation frame), a timer callback, the passing of any
  amount of time, and a direct call of \<open>setClickedPart\<close> leave it as it is, and so does
  every run of events without a pointer move, however long it lasts.
\<close>

theorem hover_changed_only_by_moves:
  "(\<not> is_MouseMove e \<longrightarrow> hoveredPart (chair (handle_event rc t e w)) = hoveredPart (chair w))
   \<and> hoveredPart (chair (fire_timer f w)) = hoveredPart (chair w)
   \<and> hoveredPart (chair (advance t w)) = hoveredPart (chair w)
   \<and> hoveredPart (chair (setClickedPart t p w)) = hoveredPart (chair w)
   \<and> (list_all (\<lambda>(t, e). \<not> is_MouseMove e) evs \<longrightarrow>
        hoveredPart (chair (run sc evs w)) = hoveredPart (chair w))"
  by (simp add: event_hovered run_hovered)

section \<open>A new click and the deselect timers\<close>

text \<open>
  C1, as amended. An accepted click on a part makes that part the selection and adds a
  deselect timer due 500 ms later to the queue; the timers already pending stay pending.
  Every deselect timer clears whatever is selected when it falls due, so the selection
  lasts until the earliest pending deselect timer is due: the new one or an older one.
\<close>

theorem click_replaces_selection:
  assumes "\<not> now - lastClickTime (handler w) < clickDelay (handler w)"
    and "getIntersectedObject rc (updateMousePosition ev w) = Some obj"
    and "name (userData obj) \<noteq> []"
  shows "clickedPart (chair (handleClick rc now ev w)) = Some (name (userData obj))
     \<and> (\<exists>more. pendingTimers (handleClick rc now ev w) =
           pendingTimers w @ (now + 500, ClearClickedPart) # more
           \<and> set more \<subseteq> {(now + 5000, HideInteractionPanel)})
     \<and> clickedPart (chair (advance t (handleClick rc now ev w))) =
         (if (\<exists>d\<le>t. (d, ClearClickedPart) \<in> set (pendingTimers w)) \<or> now + 500 \<le> t
          then None else Some (name (userData obj)))"
  using assms
  by (auto simp: click_hit_clicked click_hit_timers advance_clicked)

section \<open>Facts about the concrete scene\<close>

lemma world0_fields [simp]:
  "chair world0 = Chair_new"
  "handler world0 = InteractionHandler_new"
  "pendingTimers world0 = []"
  "clickSounds world0 = 0"
  "boundingRect (dom world0) = (0, 0, 800, 600)"
  "interactionPanel (dom world0) = Some \<lparr>display = ''none'', panel_show = False\<rparr>"
  "panel_ready world0"
  by (simp_all add: world0_def panel_ready_def)

lemma handler0_fields [simp]:
  "lastClickTime InteractionHandler_new = 0"
  "clickDelay InteractionHandler_new = 200"
  by (simp_all add: InteractionHandler_new_def)

lemma Chair_new_fields [simp]:
  "hoveredPart Chair_new = None"
  "clickedPart Chair_new = None"
  by (simp_all add: Chair_new_def createChairComponents_def createPart_def)

lemma rays0:
  "intersectObjects rc0 (- (1 / 2), 0) (getAllParts Chair_new) = [(4, seat0), (6, backrest0), (6.2, backrest0)]"
  "intersectObjects rc0 (1 / 4, 0) (getAllParts Chair_new) = [(6, backrest0), (6.2, backrest0)]"
  "intersectObjects rc0 (3 / 4, 0) (getAllParts Chair_new) = []"
  by (simp_all add: intersectObjects_def getAllParts_def rc0_def Chair_new_def
        createChairComponents_def createPart_def seat0_def backrest0_def)

lemma mouse0:
  assumes "boundingRect (dom w) = (0, 0, 800, 600)"
  shows "mouse (handler (updateMousePosition (200, 300) w)) = (- (1 / 2), 0)"
    and "mouse (handler (updateMousePosition (500, 300) w)) = (1 / 4, 0)"
    and "mouse (handler (updateMousePosition (700, 300) w)) = (3 / 4, 0)"
  using assms by (simp_all add: updateMousePosition_def)

lemma hits0:
  assumes "boundingRect (dom w) = (0, 0, 800, 600)" and "parts (chair w) = parts Chair_new"
  shows "getIntersectedObject rc0 (updateMousePosition (200, 300) w) = Some seat0"
    and "getIntersectedObject rc0 (updateMousePosition (500, 300) w) = Some backrest0"
    and "getIntersectedObject rc0 (updateMousePosition (700, 300) w) = None"
  using assms
  by (simp_all add: getIntersectedObject_def mouse0 getAllParts_def rays0 [unfolded getAllParts_def])

lemma names0 [simp]:
  "name (userData seat0) = ''seat''" "name (userData backrest0) = ''backrest''"
  by (simp_all add: seat0_def backrest0_def)

lemma advance_idle:
  "list_all (\<lambda>(d, f). \<not> d \<le> t) (pendingTimers w) \<Longrightarrow> advance t w = w"
proof -
  assume a: "list_all (\<lambda>(d, f). \<not> d \<le> t) (pendingTimers w)"
  then have 1: "filter (\<lambda>(d, f). d \<le> t) (pendingTimers w) = []"
    by (auto simp: filter_empty_conv list_all_iff)
  from a have 2: "filter (\<lambda>(d, f). \<not> d \<le> t) (pendingTimers w) = pendingTimers w"
    by (auto simp: filter_id_conv list_all_iff)
  show ?thesis by (simp add: advance_def 1 2)
qed

lemma sip_ready: "panel_ready w \<Longrightarrow> panel_ready (showInteractionPanel now nm w)"
  by (auto simp: panel_ready_def showInteractionPanel_def setTimeout_def Let_def)

lemma hide_ready: "panel_ready w \<Longrightarrow> panel_ready (hideInteractionPanel w)"
  by (auto simp: panel_ready_def hideInteractionPanel_def)

lemma ready_dom: "dom w' = dom w \<Longrightarrow> panel_ready w' = panel_ready w"
  by (simp add: panel_ready_def)

lemma ready_steps [simp]:
  "panel_ready (setClickedPart now p w) = panel_ready w"
  "panel_ready (updateMousePosition ev w) = panel_ready w"
  "panel_ready (w\<lparr>handler := h\<rparr>) = panel_ready w"
  "panel_ready (playClickSound w) = panel_ready w"
  by (simp_all add: panel_ready_def)

lemma click_ready: "panel_ready w \<Longrightarrow> panel_ready (handleClick rc now ev w)"
proof -
  assume r: "panel_ready w"
  let ?w1 = "updateMousePosition ev (w\<lparr>handler := (handler w)\<lparr>lastClickTime := now\<rparr>\<rparr>)"
  have r1: "panel_ready ?w1" using r by (simp add: ready_dom [of ?w1 w])
  show ?thesis
  proof (cases "now - lastClickTime (handler w) < clickDelay (handler w)")
    case True
    with r show ?thesis by (simp add: click_ignored)
  next
    case False
    show ?thesis
    proof (cases "getIntersectedObject rc (updateMousePosition ev w)")
      case None
      with False r1 show ?thesis by (simp add: click_miss hide_ready)
    next
      case (Some obj)
      let ?w2 = "setClickedPart now (Some (name (userData obj))) ?w1"
      have "panel_ready ?w2" using r1 by (simp add: ready_dom [of ?w2 ?w1])
      then have "panel_ready (showInteractionPanel now (name (userData obj)) ?w2)"
        by (rule sip_ready)
      then have "panel_ready (playClickSound (showInteractionPanel now (name (userData obj)) ?w2))"
        by (simp add: ready_dom [of "playClickSound (showInteractionPanel now (name (userData obj)) ?w2)"])
      with False Some show ?thesis by (simp add: click_hit)
    qed
  qed
qed

text \<open>The state after the first click of the scenarios: the seat, at time 1000.\<close>

lemma first_click:
  "clickedPart (chair (handleClick rc0 1000 (200, 300) world0)) = Some ''seat''"
  "pendingTimers (handleClick rc0 1000 (200, 300) world0) =
     [(1500, ClearClickedPart), (6000, HideInteractionPanel)]"
  "lastClickTime (handler (handleClick rc0 1000 (200, 300) world0)) = 1000"
  "interactionPanel (dom (handleClick rc0 1000 (200, 300) world0)) =
     Some \<lparr>display = ''block'', panel_show = True\<rparr>"
  "panel_ready (handleClick rc0 1000 (200, 300) world0)"
proof -
  have acc: "\<not> 1000 - lastClickTime (handler world0) < clickDelay (handler world0)" by simp
  have hit: "getIntersectedObject rc0 (updateMousePosition (200, 300) world0) = Some seat0"
    by (rule hits0) simp_all
  show "clickedPart (chair (handleClick rc0 1000 (200, 300) world0)) = Some ''seat''"
    by (simp add: click_hit_clicked [OF acc hit])
  show "pendingTimers (handleClick rc0 1000 (200, 300) world0) =
     [(1500, ClearClickedPart), (6000, HideInteractionPanel)]"
    by (simp add: click_hit_timers [OF acc hit])
  show "lastClickTime (handler (handleClick rc0 1000 (200, 300) world0)) = 1000"
    by (rule click_time [OF acc])
  show "interactionPanel (dom (handleClick rc0 1000 (200, 300) world0)) =
     Some \<lparr>display = ''block'', panel_show = True\<rparr>"
    by (simp add: click_hit [OF acc hit] sip_panel shown_def)
  show "panel_ready (handleClick rc0 1000 (200, 300) world0)"
    by (rule click_ready) simp
qed

lemma run_two:
  "run sc [(t1, e1), (t2, e2)] w =
     handle_event (sc t2) t2 e2 (advance t2 (handle_event (sc t1) t1 e1 (advance t1 w)))"
  by (simp add: run_def)

lemma two_clicks_state:
  "run scene0 [(1000, Click 200 300), (1300, Click 500 300)] world0 =
     handleClick rc0 1300 (500, 300) (handleClick rc0 1000 (200, 300) world0)"
  by (simp add: run_two scene0_def advance_idle first_click)

lemma second_click:
  "clickedPart (chair (handleClick rc0 1300 (500, 300) (handleClick rc0 1000 (200, 300) world0)))
     = Some ''backrest''"
  "pendingTimers (handleClick rc0 1300 (500, 300) (handleClick rc0 1000 (200, 300) world0)) =
     [(1500, ClearClickedPart), (6000, HideInteractionPanel),
      (1800, ClearClickedPart), (6300, HideInteractionPanel)]"
proof -
  let ?w1 = "handleClick rc0 1000 (200, 300) world0"
  have acc: "\<not> 1300 - lastClickTime (handler ?w1) < clickDelay (handler ?w1)"
    by (simp add: first_click)
  have hit: "getIntersectedObject rc0 (updateMousePosition (500, 300) ?w1) = Some backrest0"
    by (rule hits0) simp_all
  show "clickedPart (chair (handleClick rc0 1300 (500, 300) ?w1)) = Some ''backrest''"
    by (simp add: click_hit_clicked [OF acc hit])
  show "pendingTimers (handleClick rc0 1300 (500, 300) ?w1) =
     [(1500, ClearClickedPart), (6000, HideInteractionPanel),
      (1800, ClearClickedPart), (6300, HideInteractionPanel)]"
    by (simp add: click_hit_timers [OF acc hit] first_click)
qed

text \<open>
  The seat is clicked at time 1000 and the backrest at time 1300. The backrest is the
  selection after the second click, and at time 1600, 300 ms after that click, nothing
  is selected: the timer of the first click has cleared it.
\<close>

theorem stale_timer_clears_newer_selection:
  "clickedPart (chair (run scene0 [(1000, Click 200 300), (1300, Click 500 300)] world0))
     = Some ''backrest''
   \<and> clickedPart (chair (advance 1600
        (run scene0 [(1000, Click 200 300), (1300, Click 500 300)] world0))) = None"
  by (simp add: two_clicks_state second_click advance_clicked)

text \<open>
  The same two clicks: the backrest stays selected up to time 1499 and is cleared at
  time 1500, when the timer of the first click is due.
\<close>

theorem click_replaces_selection_witness:
  "clickedPart (chair (handleClick rc0 1000 (200, 300) world0)) = Some ''seat''
   \<and> clickedPart (chair (handleClick rc0 1300 (500, 300)
        (handleClick rc0 1000 (200, 300) world0))) = Some ''backrest''
   \<and> clickedPart (chair (advance 1499 (handleClick rc0 1300 (500, 300)
        (handleClick rc0 1000 (200, 300) world0)))) = Some ''backrest''
   \<and> clickedPart (chair (advance 1500 (handleClick rc0 1300 (500, 300)
        (handleClick rc0 1000 (200, 300) world0)))) = None"
proof -
  let ?w1 = "handleClick rc0 1000 (200, 300) world0"
  have acc: "\<not> 1300 - lastClickTime (handler ?w1) < clickDelay (handler ?w1)"
    by (simp add: first_click)
  have hit: "getIntersectedObject rc0 (updateMousePosition (500, 300) ?w1) = Some backrest0"
    by (rule hits0) simp_all
  have nm: "name (userData backrest0) \<noteq> []" by simp
  show ?thesis
    using click_replaces_selection [OF acc hit nm, of 1499]
      click_replaces_selection [OF acc hit nm, of 1500]
    by (simp add: first_click)
qed

text \<open>
  A click at time 1000 is accepted; a click at time 1100 changes nothing.
\<close>

theorem click_debounce_witness:
  "clickDelay (handler world0) = 200
   \<and> lastClickTime (handler (handleClick rc0 1000 (200, 300) world0)) = 1000
   \<and> handleClick rc0 1100 (500, 300) (handleClick rc0 1000 (200, 300) world0) =
       handleClick rc0 1000 (200, 300) world0"
proof -
  let ?w1 = "handleClick rc0 1000 (200, 300) world0"
  have d0: "clickDelay (handler world0) = 200" by simp
  have d1: "clickDelay (handler ?w1) = 200" by simp
  have a0: "200 \<le> 1000 - lastClickTime (handler world0)" by simp
  with click_debounce [OF d0, of 1000 rc0 "(200, 300)"]
  have t1: "lastClickTime (handler ?w1) = 1000" by blast
  then have a1: "1100 - lastClickTime (handler ?w1) < 200" by simp
  with click_debounce [OF d1, of 1100 rc0 "(500, 300)"]
  have "handleClick rc0 1100 (500, 300) ?w1 = ?w1" by blast
  with d0 t1 show ?thesis by blast
qed

text \<open>
  The seat is clicked at time 1000 and empty space at time 1300: the seat is still
  selected, and the panel goes from shown to hidden.
\<close>

theorem empty_click_frame_witness:
  "getIntersectedObject rc0
     (updateMousePosition (700, 300) (handleClick rc0 1000 (200, 300) world0)) = None
   \<and> clickedPart (chair (handleClick rc0 1300 (700, 300)
        (handleClick rc0 1000 (200, 300) world0))) = Some ''seat''
   \<and> interactionPanel (dom (handleClick rc0 1000 (200, 300) world0)) =
        Some \<lparr>display = ''block'', panel_show = True\<rparr>
   \<and> interactionPanel (dom (handleClick rc0 1300 (700, 300)
        (handleClick rc0 1000 (200, 300) world0))) =
        Some \<lparr>display = ''none'', panel_show = False\<rparr>"
proof -
  let ?w1 = "handleClick rc0 1000 (200, 300) world0"
  have acc: "\<not> 1300 - lastClickTime (handler ?w1) < clickDelay (handler ?w1)"
    by (simp add: first_click)
  have hit: "getIntersectedObject rc0 (updateMousePosition (700, 300) ?w1) = None"
    by (rule hits0) simp_all
  show ?thesis
    using empty_click_frame [OF acc hit] hit
    by (simp add: first_click hidden_def)
qed

text \<open>
  The pointer moves onto the seat; a click on the backrest and an animation frame six
  seconds later leave the seat hovered.
\<close>

lemma run_one: "run sc [(t, e)] w = handle_event (sc t) t e (advance t w)"
  by (simp add: run_def)

lemma move_hovered:
  "hoveredPart (chair (handleMouseMove rc ev w)) =
     map_option (name \<circ> userData) (getIntersectedObject rc (updateMousePosition ev w))"
  by (simp add: handleMouseMove_def Let_def split: option.splits)

theorem hover_changed_only_by_moves_witness:
  "hoveredPart (chair (handleMouseMove rc0 (200, 300) world0)) = Some ''seat''
   \<and> hoveredPart (chair (run scene0 [(1000, Click 500 300), (7000, AnimationFrame)]
        (handleMouseMove rc0 (200, 300) world0))) = Some ''seat''
   \<and> hoveredPart (chair (handle_event rc0 1000 (Click 500 300)
        (handleMouseMove rc0 (200, 300) world0))) = Some ''seat''"
proof -
  have hit: "getIntersectedObject rc0 (updateMousePosition (200, 300) world0) = Some seat0"
    by (rule hits0) simp_all
  have h: "hoveredPart (chair (handleMouseMove rc0 (200, 300) world0)) = Some ''seat''"
    by (simp add: move_hovered hit)
  show ?thesis
    using hover_changed_only_by_moves
      [where e = "Click 500 300" and rc = rc0 and t = 1000
         and w = "handleMouseMove rc0 (200, 300) world0"
         and evs = "[(1000, Click 500 300), (7000, AnimationFrame)]" and sc = scene0]
    by (simp add: h)
qed

section \<open>The per-frame update\<close>

lemma update_part_cases:
  "update_part c part =
     part\<lparr>color := (if clickedPart c = Some (name (userData part)) then 0xff6b6b
                   else if hoveredPart c = Some (name (userData part)) then 0x4ecdc4
                   else originalColor (userData part)),
          scale := (if clickedPart c = Some (name (userData part)) then (1.1, 1.1, 1.1)
                   else if hoveredPart c = Some (name (userData part)) then (1.05, 1.05, 1.05)
                   else (1, 1, 1))\<rparr>"
  by (simp add: update_part_def Let_def)

lemma update_part_userData [simp]: "userData (update_part c part) = userData part"
  by (simp add: update_part_cases)

lemma update_fields [simp]:
  "hoveredPart (update c) = hoveredPart c"
  "clickedPart (update c) = clickedPart c"
  "length (parts (update c)) = length (parts c)"
  by (simp_all add: update_def)

lemma update_nth:
  "i < length (parts c) \<Longrightarrow>
   parts (update c) ! i = (fst (parts c ! i), update_part c (snd (parts c ! i)))"
  by (simp add: update_def split_beta)

text \<open>
  C3. After one frame update, for every part of the chair (the part at any position of
  the registry keeps its key and its metadata): if it is the hovered part and not the
  selected one, its colour is the accent colour 0x4ecdc4 and its scale 1.05 on every axis;
  if it is the selected part, its colour is the alert colour 0xff6b6b and its scale 1.1
  on every axis, also when it is the hovered part as well; if it is neither, it has its
  base colour and scale 1.
\<close>

theorem update_styles:
  assumes "i < length (parts c)"
  shows "fst (parts (update c) ! i) = fst (parts c ! i)
     \<and> userData (snd (parts (update c) ! i)) = userData (snd (parts c ! i))
     \<and> (hoveredPart c = Some (name (userData (snd (parts c ! i))))
          \<and> clickedPart c \<noteq> Some (name (userData (snd (parts c ! i)))) \<longrightarrow>
            color (snd (parts (update c) ! i)) = 0x4ecdc4
            \<and> scale (snd (parts (update c) ! i)) = (1.05, 1.05, 1.05))
     \<and> (clickedPart c = Some (name (userData (snd (parts c ! i)))) \<longrightarrow>
            color (snd (parts (update c) ! i)) = 0xff6b6b
            \<and> scale (snd (parts (update c) ! i)) = (1.1, 1.1, 1.1))
     \<and> (hoveredPart c \<noteq> Some (name (userData (snd (parts c ! i))))
          \<and> clickedPart c \<noteq> Some (name (userData (snd (parts c ! i)))) \<longrightarrow>
            color (snd (parts (update c) ! i)) = originalColor (userData (snd (parts c ! i)))
            \<and> scale (snd (parts (update c) ! i)) = (1, 1, 1))"
  using assms by (simp add: update_nth update_part_cases)

section \<open>The displayed style is recomputed from scratch\<close>

lemma visual_update:
  "visual (update c) =
     map (\<lambda>(k, part). (color (update_part c part), scale (update_part c part))) (parts c)"
  by (simp add: visual_def update_def split_beta)

lemma style_of_part:
  "originalScale (userData part) = (1, 1, 1) \<Longrightarrow>
   (color (update_part c part), scale (update_part c part)) =
     styleOf (hoveredPart c = Some (name (userData part)))
       (clickedPart c = Some (name (userData part)))
       (originalColor (userData part)) (originalScale (userData part))"
  by (simp add: update_part_cases styleOf_def)

lemma update_part_twice:
  "(color (update_part (update c) (update_part c part)),
    scale (update_part (update c) (update_part c part))) =
   (color (update_part c part), scale (update_part c part))"
  by (simp add: update_part_cases)

lemma update_part_stale:
  "userData part = userData part' \<Longrightarrow> hoveredPart c = hoveredPart c' \<Longrightarrow>
   clickedPart c = clickedPart c' \<Longrightarrow>
   (color (update_part c part), scale (update_part c part)) =
   (color (update_part c' part'), scale (update_part c' part'))"
  by (simp add: update_part_cases)

lemma visual_idem: "visual (update (update c)) = visual (update c)"
proof -
  have "visual (update (update c)) =
      map (\<lambda>(k, part). (color (update_part (update c) part), scale (update_part (update c) part)))
        (parts (update c))"
    by (rule visual_update)
  also have "\<dots> = map (\<lambda>(k, part). (color (update_part (update c) (update_part c part)),
        scale (update_part (update c) (update_part c part)))) (parts c)"
    by (simp add: update_def split_beta comp_def)
  also have "\<dots> = map (\<lambda>(k, part). (color (update_part c part), scale (update_part c part)))
        (parts c)"
    by (simp only: update_part_twice)
  also have "\<dots> = visual (update c)"
    by (rule visual_update [symmetric])
  finally show ?thesis .
qed

lemma visual_stale:
  assumes h: "hoveredPart c = hoveredPart c'" and k: "clickedPart c = clickedPart c'"
    and u: "map (userData \<circ> snd) (parts c) = map (userData \<circ> snd) (parts c')"
  shows "visual (update c) = visual (update c')"
proof (rule nth_equalityI)
  from u have len: "length (parts c) = length (parts c')"
    by (rule map_eq_imp_length_eq)
  then show "length (visual (update c)) = length (visual (update c'))"
    by (simp add: visual_update)
  fix i assume "i < length (visual (update c))"
  then have i: "i < length (parts c)" by (simp add: visual_update)
  with len have i': "i < length (parts c')" by simp
  from u i i' have "userData (snd (parts c ! i)) = userData (snd (parts c' ! i))"
    by (metis comp_apply length_map nth_map)
  then have "(color (update_part c (snd (parts c ! i))), scale (update_part c (snd (parts c ! i)))) =
      (color (update_part c' (snd (parts c' ! i))), scale (update_part c' (snd (parts c' ! i))))"
    using h k by (rule update_part_stale)
  then show "visual (update c) ! i = visual (update c') ! i"
    using i i' by (simp add: visual_update split_beta)
qed

lemma visual_style:
  assumes "list_all (\<lambda>(k, part). originalScale (userData part) = (1, 1, 1)) (parts c)"
  shows "visual (update c) =
     map (\<lambda>(k, part). styleOf (hoveredPart c = Some (name (userData part)))
            (clickedPart c = Some (name (userData part)))
            (originalColor (userData part)) (originalScale (userData part))) (parts c)"
  unfolding visual_update
proof (rule map_cong [OF refl])
  fix x assume "x \<in> set (parts c)"
  with assms have "originalScale (userData (snd x)) = (1, 1, 1)"
    by (auto simp: list_all_iff)
  then show "(case x of (k, part) \<Rightarrow> (color (update_part c part), scale (update_part c part))) =
      (case x of (k, part) \<Rightarrow> styleOf (hoveredPart c = Some (name (userData part)))
            (clickedPart c = Some (name (userData part)))
            (originalColor (userData part)) (originalScale (userData part)))"
    by (simp add: split_beta style_of_part)
qed

text \<open>Every chair the program builds has base scale 1 on all its parts.\<close>

lemma object_set_all:
  "P (k, v) \<Longrightarrow> list_all P ps \<Longrightarrow> list_all P (object_set k v ps)"
  by (induction ps) auto

lemma createPart_base_scale:
  "list_all (\<lambda>(k, part). originalScale (userData part) = (1, 1, 1)) (parts c) \<Longrightarrow>
   list_all (\<lambda>(k, part). originalScale (userData part) = (1, 1, 1))
     (parts (createPart nm geo pos col descr c))"
  by (simp add: createPart_def object_set_all)

lemma Chair_new_base_scale:
  "list_all (\<lambda>(k, part). originalScale (userData part) = (1, 1, 1)) (parts Chair_new)"
  by (simp add: Chair_new_def createChairComponents_def createPart_base_scale)

lemma update_base_scale:
  "list_all (\<lambda>(k, part). originalScale (userData part) = (1, 1, 1)) (parts c) \<Longrightarrow>
   list_all (\<lambda>(k, part). originalScale (userData part) = (1, 1, 1)) (parts (update c))"
  by (simp add: update_def list_all_iff split_beta)

text \<open>
  C4. On a chair whose parts have base scale 1 on every axis (every chair the program
  builds), the colour and scale of each part after a frame update are the value of one
  function of whether it is hovered, whether it is selected, its base colour and its base
  scale. A second update in the same state gives the same colours and scales as the
  first. Two chairs with the same hovered part, the same selected part and the same part
  metadata show the same colours and scales after an update, whatever colours and scales
  their parts had before: nothing of an earlier hover or selection is left.
\<close>

theorem update_pure_idempotent:
  "(list_all (\<lambda>(k, part). originalScale (userData part) = (1, 1, 1)) (parts c) \<longrightarrow>
      visual (update c) =
        map (\<lambda>(k, part). styleOf (hoveredPart c = Some (name (userData part)))
               (clickedPart c = Some (name (userData part)))
               (originalColor (userData part)) (originalScale (userData part))) (parts c))
   \<and> visual (update (update c)) = visual (update c)
   \<and> (hoveredPart c = hoveredPart c' \<and> clickedPart c = clickedPart c'
        \<and> map (userData \<circ> snd) (parts c) = map (userData \<circ> snd) (parts c') \<longrightarrow>
        visual (update c) = visual (update c'))"
  using visual_style [of c] visual_idem [of c] visual_stale [of c c'] by blast

lemma parts0:
  "parts Chair_new = (''seat'', seat0) # (''backrest'', backrest0) # drop 2 (parts Chair_new)"
  "length (parts Chair_new) = 10"
  by (simp_all add: Chair_new_def createChairComponents_def createPart_def seat0_def backrest0_def)

lemma parts0_nth:
  "parts Chair_new ! 0 = (''seat'', seat0)" "parts Chair_new ! Suc 0 = (''backrest'', backrest0)"
  by (subst parts0(1), simp)+

lemma base0 [simp]:
  "originalColor (userData seat0) = 0x8b4513" "originalColor (userData backrest0) = 0xa0522d"
  by (simp_all add: seat0_def backrest0_def)

text \<open>
  The seat hovered and selected at once shows the selection styling; the seat hovered
  only shows the hover styling; the backrest, neither, shows its base colour.
\<close>

theorem update_styles_witness:
  "color (snd (parts (update (Chair_new\<lparr>hoveredPart := Some ''seat'',
       clickedPart := Some ''seat''\<rparr>)) ! 0)) = 0xff6b6b
   \<and> scale (snd (parts (update (Chair_new\<lparr>hoveredPart := Some ''seat'',
       clickedPart := Some ''seat''\<rparr>)) ! 0)) = (1.1, 1.1, 1.1)
   \<and> color (snd (parts (update (Chair_new\<lparr>hoveredPart := Some ''seat''\<rparr>)) ! 0)) = 0x4ecdc4
   \<and> scale (snd (parts (update (Chair_new\<lparr>hoveredPart := Some ''seat''\<rparr>)) ! 0))
       = (1.05, 1.05, 1.05)
   \<and> color (snd (parts (update (Chair_new\<lparr>hoveredPart := Some ''seat''\<rparr>)) ! 1)) = 0xa0522d
   \<and> scale (snd (parts (update (Chair_new\<lparr>hoveredPart := Some ''seat''\<rparr>)) ! 1)) = (1, 1, 1)"
proof -
  have l0: "0 < length (parts (Chair_new\<lparr>hoveredPart := Some ''seat'', clickedPart := Some ''seat''\<rparr>))"
    and l1: "0 < length (parts (Chair_new\<lparr>hoveredPart := Some ''seat''\<rparr>))"
    and l2: "1 < length (parts (Chair_new\<lparr>hoveredPart := Some ''seat''\<rparr>))"
    by (simp_all add: parts0(2))
  show ?thesis
    using update_styles [OF l0] update_styles [OF l1] update_styles [OF l2]
    by (simp add: parts0_nth)
qed

text \<open>
  The seat is hovered. Its selection styling from an earlier frame, when it was also
  selected, is gone after the next update.
\<close>

theorem update_pure_idempotent_witness:
  "list_all (\<lambda>(k, part). originalScale (userData part) = (1, 1, 1))
     (parts (Chair_new\<lparr>hoveredPart := Some ''seat''\<rparr>))
   \<and> take 2 (visual (update (Chair_new\<lparr>hoveredPart := Some ''seat''\<rparr>))) =
       [(0x4ecdc4, (1.05, 1.05, 1.05)), (0xa0522d, (1, 1, 1))]
   \<and> visual (update (update (Chair_new\<lparr>hoveredPart := Some ''seat''\<rparr>))) =
       visual (update (Chair_new\<lparr>hoveredPart := Some ''seat''\<rparr>))
   \<and> visual (update ((update (Chair_new\<lparr>hoveredPart := Some ''seat'',
          clickedPart := Some ''seat''\<rparr>))\<lparr>clickedPart := None\<rparr>)) =
       visual (update (Chair_new\<lparr>hoveredPart := Some ''seat''\<rparr>))"
proof -
  let ?c = "Chair_new\<lparr>hoveredPart := Some ''seat''\<rparr>"
  let ?c' = "(update (Chair_new\<lparr>hoveredPart := Some ''seat'',
          clickedPart := Some ''seat''\<rparr>))\<lparr>clickedPart := None\<rparr>"
  have inv: "list_all (\<lambda>(k, part). originalScale (userData part) = (1, 1, 1)) (parts ?c)"
    using Chair_new_base_scale by simp
  have same: "hoveredPart ?c' = hoveredPart ?c \<and> clickedPart ?c' = clickedPart ?c
      \<and> map (userData \<circ> snd) (parts ?c') = map (userData \<circ> snd) (parts ?c)"
    by (simp add: update_def split_beta comp_def)
  have two: "take 2 (parts ?c) = [(''seat'', seat0), (''backrest'', backrest0)]"
    by (simp, subst parts0(1), simp)
  from update_pure_idempotent [of ?c ?c] inv
  have "visual (update ?c) =
        map (\<lambda>(k, part). styleOf (hoveredPart ?c = Some (name (userData part)))
               (clickedPart ?c = Some (name (userData part)))
               (originalColor (userData part)) (originalScale (userData part))) (parts ?c)"
    by blast
  then have "take 2 (visual (update ?c)) =
        map (\<lambda>(k, part). styleOf (hoveredPart ?c = Some (name (userData part)))
               (clickedPart ?c = Some (name (userData part)))
               (originalColor (userData part)) (originalScale (userData part))) (take 2 (parts ?c))"
    by (simp only: take_map)
  then have t: "take 2 (visual (update ?c)) =
       [(0x4ecdc4, (1.05, 1.05, 1.05)), (0xa0522d, (1, 1, 1))]"
    by (simp only: two) (simp add: styleOf_def seat0_def backrest0_def)
  from update_pure_idempotent [of ?c' ?c] same
  have s: "visual (update ?c') = visual (update ?c)" by blast
  from update_pure_idempotent [of ?c ?c]
  have i: "visual (update (update ?c)) = visual (update ?c)" by blast
  from inv t i s show ?thesis by blast
qed

section \<open>Hit testing and hover\<close>

lemma intersect_set:
  "set (intersectObjects rc m objs) = {(d, obj). obj \<in> set objs \<and> d \<in> set (rc m obj)}"
  unfolding intersectObjects_def by (force simp: set_sort)

lemma intersect_sorted: "sorted (map fst (intersectObjects rc m objs))"
  unfolding intersectObjects_def by (rule sorted_sort_key)

lemma intersect_Nil:
  "intersectObjects rc m objs = [] \<longleftrightarrow> (\<forall>obj\<in>set objs. rc m obj = [])"
proof -
  have "intersectObjects rc m objs = [] \<longleftrightarrow> length (intersectObjects rc m objs) = 0"
    by simp
  also have "\<dots> \<longleftrightarrow> concat (map (\<lambda>obj. map (\<lambda>d. (d, obj)) (rc m obj)) objs) = []"
    unfolding intersectObjects_def length_sort by simp
  also have "\<dots> \<longleftrightarrow> (\<forall>obj\<in>set objs. rc m obj = [])"
    by (simp add: concat_eq_Nil_conv)
  finally show ?thesis .
qed

lemma gio_None:
  "getIntersectedObject rc w = None \<longleftrightarrow>
     (\<forall>obj\<in>set (getAllParts (chair w)). rc (mouse (handler w)) obj = [])"
proof -
  have "getIntersectedObject rc w = None \<longleftrightarrow>
      intersectObjects rc (mouse (handler w)) (getAllParts (chair w)) = []"
    by (simp add: getIntersectedObject_def split: list.splits)
  then show ?thesis by (simp only: intersect_Nil)
qed

lemma gio_Some:
  assumes "getIntersectedObject rc w = Some obj"
  shows "obj \<in> set (getAllParts (chair w))
     \<and> (\<exists>d\<in>set (rc (mouse (handler w)) obj).
          \<forall>obj'\<in>set (getAllParts (chair w)). \<forall>d'\<in>set (rc (mouse (handler w)) obj'). d \<le> d')"
proof -
  let ?m = "mouse (handler w)" and ?objs = "getAllParts (chair w)"
  from assms obtain d rest where hits: "intersectObjects rc ?m ?objs = (d, obj) # rest"
    by (auto simp: getIntersectedObject_def split: list.splits)
  then have "(d, obj) \<in> set (intersectObjects rc ?m ?objs)" by simp
  then have mem: "obj \<in> set ?objs" and d: "d \<in> set (rc ?m obj)"
    by (simp_all add: intersect_set)
  have "d \<le> d'" if "obj' \<in> set ?objs" and "d' \<in> set (rc ?m obj')" for obj' d'
  proof -
    from that have "(d', obj') \<in> set (intersectObjects rc ?m ?objs)"
      by (simp add: intersect_set)
    with hits have "(d', obj') = (d, obj) \<or> (d', obj') \<in> set rest" by simp
    moreover from intersect_sorted [of rc ?m ?objs] hits
    have "\<forall>y\<in>set rest. d \<le> fst y" by simp
    ultimately show ?thesis by auto
  qed
  with mem d show ?thesis by blast
qed

lemma gio_empty: "getAllParts (chair w) = [] \<Longrightarrow> getIntersectedObject rc w = None"
  by (simp add: gio_None)

lemma move_keeps [simp]:
  "parts (chair (handleMouseMove rc ev w)) = parts (chair w)"
  "boundingRect (dom (handleMouseMove rc ev w)) = boundingRect (dom w)"
  by (simp_all add: handleMouseMove_def Let_def split: option.splits)

lemma moves_keep:
  "list_all (\<lambda>(t, e). is_MouseMove e) evs \<Longrightarrow>
   parts (chair (run sc evs w)) = parts (chair w)
   \<and> boundingRect (dom (run sc evs w)) = boundingRect (dom w)"
proof (induction evs rule: rev_induct)
  case Nil
  show ?case by (simp add: run_def)
next
  case (snoc x evs)
  obtain t e where x: "x = (t, e)" by (cases x)
  with snoc.prems obtain a b where e: "e = MouseMove a b"
    by (cases e) simp_all
  from snoc show ?case by (simp add: x e run_snoc)
qed

lemma last_move_hovered:
  assumes "list_all (\<lambda>(t, e). is_MouseMove e) evs"
  shows "hoveredPart (chair (run sc (evs @ [(t, MouseMove x y)]) w)) =
     map_option (name \<circ> userData) (getIntersectedObject (sc t) (updateMousePosition (x, y) w))"
proof -
  let ?w = "advance t (run sc evs w)"
  from moves_keep [OF assms, of sc w]
  have "boundingRect (dom ?w) = boundingRect (dom w)" and "parts (chair ?w) = parts (chair w)"
    by simp_all
  then have "getIntersectedObject (sc t) (updateMousePosition (x, y) ?w) =
      getIntersectedObject (sc t) (updateMousePosition (x, y) w)"
    by (rule hit_cong)
  then show ?thesis by (simp add: run_snoc move_hovered)
qed

text \<open>
  C5. The hit tester returns no part exactly when the ray meets none of the parts, so
  also when there are no parts at all; a part it returns is one of the parts and is met
  by the ray at a distance no greater than any distance at which the ray meets any part.
  After any sequence of pointer moves, the hovered part is the name of the part the hit
  tester returns for the coordinates of the last move in the scene of that moment, or
  none when it returns none: the earlier moves have no influence.
\<close>

theorem hover_follows_last_move:
  "(getIntersectedObject rc w = None \<longleftrightarrow>
      (\<forall>obj\<in>set (getAllParts (chair w)). rc (mouse (handler w)) obj = []))
   \<and> (getAllParts (chair w) = [] \<longrightarrow> getIntersectedObject rc w = None)
   \<and> (getIntersectedObject rc w = Some hit \<longrightarrow>
        hit \<in> set (getAllParts (chair w))
        \<and> (\<exists>d\<in>set (rc (mouse (handler w)) hit).
             \<forall>obj'\<in>set (getAllParts (chair w)).
               \<forall>d'\<in>set (rc (mouse (handler w)) obj'). d \<le> d'))
   \<and> (list_all (\<lambda>(t, e). is_MouseMove e) evs \<longrightarrow>
        hoveredPart (chair (run sc (evs @ [(t, MouseMove x y)]) w)) =
          map_option (name \<circ> userData)
            (getIntersectedObject (sc t) (updateMousePosition (x, y) w)))"
  using gio_None [of rc w] gio_empty [of w rc] gio_Some [of rc w hit]
    last_move_hovered [of evs sc t x y w]
  by blast

text \<open>
  At the left of the canvas the ray meets the seat at distance 4 and the backrest at 6
  and 6.2: the hit tester returns the seat. A move there followed by a move to the
  middle, where the ray meets the backrest only, leaves the backrest hovered; a further
  move to the right, where the ray meets nothing, leaves nothing hovered.
\<close>

theorem hover_follows_last_move_witness:
  "getIntersectedObject rc0 (updateMousePosition (200, 300) world0) = Some seat0
   \<and> seat0 \<in> set (getAllParts (chair (updateMousePosition (200, 300) world0)))
   \<and> hoveredPart (chair (run scene0 [(10, MouseMove 200 300), (20, MouseMove 500 300)] world0))
       = Some ''backrest''
   \<and> hoveredPart (chair (run scene0
        [(10, MouseMove 200 300), (20, MouseMove 500 300), (30, MouseMove 700 300)] world0))
       = None"
proof -
  have h1: "getIntersectedObject rc0 (updateMousePosition (200, 300) world0) = Some seat0"
    and h2: "getIntersectedObject rc0 (updateMousePosition (500, 300) world0) = Some backrest0"
    and h3: "getIntersectedObject rc0 (updateMousePosition (700, 300) world0) = None"
    by (rule hits0, simp, simp)+
  from hover_follows_last_move
    [where rc = rc0 and w = "updateMousePosition (200, 300) world0" and hit = seat0
       and evs = "[]" and sc = scene0 and t = 10 and x = 200 and y = 300] h1
  have a: "seat0 \<in> set (getAllParts (chair (updateMousePosition (200, 300) world0)))"
    by blast
  have m1: "list_all (\<lambda>(t, e). is_MouseMove e) [(10::int, MouseMove 200 300)]"
    and m2: "list_all (\<lambda>(t, e). is_MouseMove e) [(10::int, MouseMove 200 300), (20, MouseMove 500 300)]"
    by simp_all
  from hover_follows_last_move
    [where rc = rc0 and w = world0 and hit = seat0
       and evs = "[(10, MouseMove 200 300)]" and sc = scene0 and t = 20 and x = 500 and y = 300] m1
  have "hoveredPart (chair (run scene0 ([(10, MouseMove 200 300)] @ [(20, MouseMove 500 300)]) world0)) =
          map_option (name \<circ> userData)
            (getIntersectedObject (scene0 20) (updateMousePosition (500, 300) world0))"
    by blast
  then have b: "hoveredPart (chair (run scene0 [(10, MouseMove 200 300), (20, MouseMove 500 300)] world0))
       = Some ''backrest''"
    by (simp add: scene0_def h2)
  from hover_follows_last_move
    [where rc = rc0 and w = world0 and hit = seat0
       and evs = "[(10, MouseMove 200 300), (20, MouseMove 500 300)]" and sc = scene0 and t = 30
       and x = 700 and y = 300] m2
  have "hoveredPart (chair (run scene0 ([(10, MouseMove 200 300), (20, MouseMove 500 300)]
            @ [(30, MouseMove 700 300)]) world0)) =
          map_option (name \<circ> userData)
            (getIntersectedObject (scene0 30) (updateMousePosition (700, 300) world0))"
    by blast
  then have c: "hoveredPart (chair (run scene0
        [(10, MouseMove 200 300), (20, MouseMove 500 300), (30, MouseMove 700 300)] world0))
       = None"
    by (simp add: scene0_def h3)
  from h1 a b c show ?thesis by blast
qed

section \<open>The panel and its hide timers\<close>

lemma hidden_shown [simp]:
  "map_option hidden (map_option shown x) = map_option hidden x"
  by (cases x) (simp_all add: hidden_def shown_def)

lemma click_hit_panel:
  assumes "\<not> now - lastClickTime (handler w) < clickDelay (handler w)"
    and "getIntersectedObject rc (updateMousePosition ev w) = Some obj"
    and "panel_ready w"
  shows "interactionPanel (dom (handleClick rc now ev w)) =
     map_option shown (interactionPanel (dom w))"
  using assms by (simp add: click_hit sip_panel)

lemma click_hit_content:
  assumes "\<not> now - lastClickTime (handler w) < clickDelay (handler w)"
    and "getIntersectedObject rc (updateMousePosition ev w) = Some obj"
    and "panel_ready w"
  shows "partTitle (dom (handleClick rc now ev w)) = Some (formatPartName (name (userData obj)))"
    and "partDescription (dom (handleClick rc now ev w)) =
      Some (js_or (object_get (partDescriptions (handler w)) (name (userData obj)))
              (JString ''Chair component''))"
  using assms by (simp_all add: click_hit sip_content)

lemma update_part_unselected:
  "clickedPart c = None \<Longrightarrow>
   (color (update_part c part), scale (update_part c part)) =
     styleOf (hoveredPart c = Some (name (userData part))) False
       (originalColor (userData part)) (1, 1, 1)"
  by (simp add: update_part_cases styleOf_def)

text \<open>
  C6, as amended. An accepted click on a part, with the panel elements present, shows
  the panel and schedules a hide 5000 ms later; hide timers already pending are not
  cancelled. As time passes with no further input the panel is hidden as soon as any
  pending hide timer is due: 5000 ms after this click at the latest, and earlier when a
  timer of an earlier show is due first. From 5000 ms after the click on, the panel is
  hidden and nothing is selected, and a frame update then gives every part of the
  clicked name its base colour and scale 1, unless that part is hovered: then it has
  the hover styling.
\<close>

theorem panel_auto_hide:
  assumes "\<not> now - lastClickTime (handler w) < clickDelay (handler w)"
    and "getIntersectedObject rc (updateMousePosition ev w) = Some obj"
    and "name (userData obj) \<noteq> []"
    and "panel_ready w"
  shows "interactionPanel (dom (handleClick rc now ev w)) =
       map_option shown (interactionPanel (dom w))
     \<and> pendingTimers (handleClick rc now ev w) =
         pendingTimers w @ [(now + 500, ClearClickedPart), (now + 5000, HideInteractionPanel)]
     \<and> interactionPanel (dom (advance t (handleClick rc now ev w))) =
         (if (\<exists>d\<le>t. (d, HideInteractionPanel) \<in> set (pendingTimers w)) \<or> now + 5000 \<le> t
          then map_option hidden (interactionPanel (dom w))
          else map_option shown (interactionPanel (dom w)))
     \<and> (now + 5000 \<le> t \<longrightarrow> clickedPart (chair (advance t (handleClick rc now ev w))) = None)
     \<and> (now + 5000 \<le> t \<and> i < length (parts (chair w))
          \<and> name (userData (snd (parts (chair w) ! i))) = name (userData obj) \<longrightarrow>
          (color (snd (parts (update (chair (advance t (handleClick rc now ev w)))) ! i)),
           scale (snd (parts (update (chair (advance t (handleClick rc now ev w)))) ! i))) =
            styleOf (hoveredPart (chair w) = Some (name (userData obj))) False
              (originalColor (userData (snd (parts (chair w) ! i)))) (1, 1, 1))"
proof -
  let ?w' = "handleClick rc now ev w"
  note acc = assms(1) and hit = assms(2)
  have p: "interactionPanel (dom ?w') = map_option shown (interactionPanel (dom w))"
    using acc hit assms(4) by (rule click_hit_panel)
  have ts: "pendingTimers ?w' =
      pendingTimers w @ [(now + 500, ClearClickedPart), (now + 5000, HideInteractionPanel)]"
    using assms by (simp add: click_hit_timers)
  have adv: "interactionPanel (dom (advance t ?w')) =
         (if (\<exists>d\<le>t. (d, HideInteractionPanel) \<in> set (pendingTimers w)) \<or> now + 5000 \<le> t
          then map_option hidden (interactionPanel (dom w))
          else map_option shown (interactionPanel (dom w)))"
    by (auto simp: advance_panel ts p)
  have clr: "clickedPart (chair (advance t ?w')) = None" if "now + 5000 \<le> t"
  proof -
    from that have "now + 500 \<le> t" by simp
    moreover have "(now + 500, ClearClickedPart) \<in> set (pendingTimers ?w')"
      by (simp add: ts)
    ultimately have "\<exists>d\<le>t. (d, ClearClickedPart) \<in> set (pendingTimers ?w')" by blast
    then show ?thesis by (simp only: advance_clicked if_True)
  qed
  have sty: "(color (snd (parts (update (chair (advance t ?w'))) ! i)),
           scale (snd (parts (update (chair (advance t ?w'))) ! i))) =
            styleOf (hoveredPart (chair w) = Some (name (userData obj))) False
              (originalColor (userData (snd (parts (chair w) ! i)))) (1, 1, 1)"
    if t: "now + 5000 \<le> t" and i: "i < length (parts (chair w))"
      and n: "name (userData (snd (parts (chair w) ! i))) = name (userData obj)"
  proof -
    let ?c = "chair (advance t ?w')"
    have pc: "parts ?c = parts (chair w)" by simp
    have hc: "hoveredPart ?c = hoveredPart (chair w)" by simp
    from i have "parts (update ?c) ! i = (fst (parts ?c ! i), update_part ?c (snd (parts ?c ! i)))"
      by (simp only: update_nth pc)
    then have "snd (parts (update ?c) ! i) = update_part ?c (snd (parts (chair w) ! i))"
      by (simp only: pc snd_conv)
    with update_part_unselected [OF clr [OF t], of "snd (parts (chair w) ! i)"]
    show ?thesis by (simp only: hc n)
  qed
  from p ts adv clr sty show ?thesis by blast
qed

lemma move_fields [simp]:
  "pendingTimers (handleMouseMove rc ev w) = pendingTimers w"
  "clickedPart (chair (handleMouseMove rc ev w)) = clickedPart (chair w)"
  "lastClickTime (handler (handleMouseMove rc ev w)) = lastClickTime (handler w)"
  "clickDelay (handler (handleMouseMove rc ev w)) = clickDelay (handler w)"
  "panel_ready (handleMouseMove rc ev w) = panel_ready w"
  "interactionPanel (dom (handleMouseMove rc ev w)) = interactionPanel (dom w)"
  by (simp_all add: handleMouseMove_def Let_def panel_ready_def setHoveredPart_def
      split: option.splits)

lemma getPart_update:
  "getPartByName nm (update c) = map_option (update_part c) (getPartByName nm c)"
  by (simp add: getPartByName_def update_def map_of_map)

lemma getPart_seat0: "parts c = parts Chair_new \<Longrightarrow> getPartByName ''seat'' c = Some seat0"
  by (simp add: getPartByName_def, subst parts0(1), simp)

lemma fire_text [simp]:
  "partTitle (dom (fire_timer f w)) = partTitle (dom w)"
  "partDescription (dom (fire_timer f w)) = partDescription (dom w)"
  by (cases f, simp, simp add: hideInteractionPanel_def split: option.splits)
     (cases f, simp, simp add: hideInteractionPanel_def split: option.splits)

lemma fire_all_text:
  "partTitle (dom (fire_all ts w)) = partTitle (dom w)
   \<and> partDescription (dom (fire_all ts w)) = partDescription (dom w)"
  by (induction ts arbitrary: w) auto

lemma advance_text [simp]:
  "partTitle (dom (advance t w)) = partTitle (dom w)"
  "partDescription (dom (advance t w)) = partDescription (dom w)"
  by (simp_all add: advance_fire_all fire_all_text)

lemma advance_ready [simp]: "panel_ready (advance t w) = panel_ready w"
  by (cases "interactionPanel (dom w)") (simp_all add: panel_ready_def advance_panel)

text \<open>
  Two scenarios. The seat is clicked at time 1000 and the backrest
  at time 5000: the panel shown by the second click is hidden at time 6000, 1000 ms
  after it was shown and with no click in between. And when the pointer first moves
  onto the seat and the seat is then clicked at time 1000, the frame update at time 6100
  gives the seat the hover colour and scale 1.05, not its base colour and scale 1.
\<close>

theorem panel_hidden_early_and_hover_styling_stays:
  "interactionPanel (dom (run scene0 [(1000, Click 200 300), (5000, Click 500 300)] world0))
     = Some \<lparr>display = ''block'', panel_show = True\<rparr>
   \<and> interactionPanel (dom (advance 6000
        (run scene0 [(1000, Click 200 300), (5000, Click 500 300)] world0)))
     = Some \<lparr>display = ''none'', panel_show = False\<rparr>
   \<and> map_option color
        (getPartByName ''seat'' (chair (run scene0
           [(900, MouseMove 200 300), (1000, Click 200 300), (6100, AnimationFrame)] world0)))
     = Some 0x4ecdc4
   \<and> map_option scale
        (getPartByName ''seat'' (chair (run scene0
           [(900, MouseMove 200 300), (1000, Click 200 300), (6100, AnimationFrame)] world0)))
     = Some (1.05, 1.05, 1.05)"
proof -
  let ?w1 = "handleClick rc0 1000 (200, 300) world0"
  let ?a = "advance 5000 ?w1"
  let ?w2 = "handleClick rc0 5000 (500, 300) ?a"
  have r2: "run scene0 [(1000, Click 200 300), (5000, Click 500 300)] world0 = ?w2"
    by (simp add: run_two scene0_def advance_idle)
  have acc: "\<not> 5000 - lastClickTime (handler ?a) < clickDelay (handler ?a)"
    by (simp add: first_click)
  have hit: "getIntersectedObject rc0 (updateMousePosition (500, 300) ?a) = Some backrest0"
    by (rule hits0) simp_all
  have ready: "panel_ready ?a" using first_click(5) by simp
  have pa: "interactionPanel (dom ?a) = Some \<lparr>display = ''block'', panel_show = True\<rparr>"
    by (simp add: advance_panel first_click)
  have ta: "pendingTimers ?a = [(6000, HideInteractionPanel)]"
    by (simp add: advance_timers first_click)
  have p2: "interactionPanel (dom ?w2) = Some \<lparr>display = ''block'', panel_show = True\<rparr>"
    by (simp add: click_hit_panel [OF acc hit ready] pa shown_def)
  have t2: "pendingTimers ?w2 =
      [(6000, HideInteractionPanel), (5500, ClearClickedPart), (10000, HideInteractionPanel)]"
    by (simp add: click_hit_timers [OF acc hit] first_click ta)
  have p3: "interactionPanel (dom (advance 6000 ?w2)) = Some \<lparr>display = ''none'', panel_show = False\<rparr>"
    by (simp add: advance_panel t2 p2 hidden_def)
  let ?m = "handleMouseMove rc0 (200, 300) world0"
  let ?c = "handleClick rc0 1000 (200, 300) ?m"
  let ?f = "advance 6100 ?c"
  have r3: "run scene0 [(900, MouseMove 200 300), (1000, Click 200 300), (6100, AnimationFrame)]
      world0 = ?f\<lparr>chair := update (chair ?f)\<rparr>"
    by (simp add: run_def scene0_def advance_idle)
  have hitm: "getIntersectedObject rc0 (updateMousePosition (200, 300) world0) = Some seat0"
    by (rule hits0) simp_all
  have hov: "hoveredPart (chair ?f) = Some ''seat''"
    by (simp add: move_hovered hitm)
  have accm: "\<not> 1000 - lastClickTime (handler ?m) < clickDelay (handler ?m)" by simp
  have hitc: "getIntersectedObject rc0 (updateMousePosition (200, 300) ?m) = Some seat0"
    by (rule hits0) simp_all
  have tc: "pendingTimers ?c = [(1500, ClearClickedPart), (6000, HideInteractionPanel)]"
    by (simp add: click_hit_timers [OF accm hitc])
  have clr: "clickedPart (chair ?f) = None"
    by (simp add: advance_clicked tc)
  have seat: "getPartByName ''seat'' (chair ?f) = Some seat0"
    by (rule getPart_seat0) simp
  have "map_option color (getPartByName ''seat'' (update (chair ?f))) = Some 0x4ecdc4
      \<and> map_option scale (getPartByName ''seat'' (update (chair ?f))) = Some (1.05, 1.05, 1.05)"
    using hov clr by (simp add: getPart_update seat update_part_cases)
  with r2 r3 p2 p3 show ?thesis by simp
qed

text \<open>
  The seat is clicked at time 1000 with nothing hovered: the panel is shown, stays shown
  at time 5999, is hidden at time 6000, and a frame update then shows the seat in its
  base colour at scale 1.
\<close>

theorem panel_auto_hide_witness:
  "interactionPanel (dom (handleClick rc0 1000 (200, 300) world0)) =
       Some \<lparr>display = ''block'', panel_show = True\<rparr>
   \<and> interactionPanel (dom (advance 5999 (handleClick rc0 1000 (200, 300) world0))) =
       Some \<lparr>display = ''block'', panel_show = True\<rparr>
   \<and> interactionPanel (dom (advance 6000 (handleClick rc0 1000 (200, 300) world0))) =
       Some \<lparr>display = ''none'', panel_show = False\<rparr>
   \<and> clickedPart (chair (advance 6000 (handleClick rc0 1000 (200, 300) world0))) = None
   \<and> (color (snd (parts (update (chair (advance 6000
          (handleClick rc0 1000 (200, 300) world0)))) ! 0)),
       scale (snd (parts (update (chair (advance 6000
          (handleClick rc0 1000 (200, 300) world0)))) ! 0))) = (0x8b4513, (1, 1, 1))"
proof -
  have acc: "\<not> 1000 - lastClickTime (handler world0) < clickDelay (handler world0)" by simp
  have hit: "getIntersectedObject rc0 (updateMousePosition (200, 300) world0) = Some seat0"
    by (rule hits0) simp_all
  have nm: "name (userData seat0) \<noteq> []" by simp
  have ready: "panel_ready world0" by simp
  show ?thesis
    using panel_auto_hide [OF acc hit nm ready, of 5999 0]
      panel_auto_hide [OF acc hit nm ready, of 6000 0]
    by (simp add: shown_def hidden_def parts0(2) parts0_nth styleOf_def)
qed

section \<open>The panel's title and description\<close>

lemma split_hyphen_not_Nil [simp]: "split_hyphen s \<noteq> []"
  by (induction s) (auto split: list.splits)

lemma join_space_Cons:
  "join_space ((x # word) # others) = x # join_space (word # others)"
  by (cases others) simp_all

lemma join_space_Nil_Cons:
  "others \<noteq> [] \<Longrightarrow> join_space ([] # others) = CHR '' '' # join_space others"
  by (cases others) simp_all

lemma capitalize_simps [simp]:
  "capitalize [] = []" "capitalize (c # cs) = toUpperCase_char c # cs"
  by (simp_all add: capitalize_def)

lemma title_case_words:
  "join_space ((if first then capitalize (hd (split_hyphen s)) else hd (split_hyphen s))
      # map capitalize (tl (split_hyphen s))) = title_case first s"
proof (induction s arbitrary: first)
  case Nil
  show ?case by simp
next
  case (Cons c cs)
  obtain word others where sp: "split_hyphen cs = word # others"
    by (cases "split_hyphen cs") simp_all
  show ?case
  proof (cases "c = CHR ''-''")
    case True
    have "join_space ([] # map capitalize (split_hyphen cs)) =
        CHR '' '' # join_space (map capitalize (split_hyphen cs))"
      by (rule join_space_Nil_Cons) simp
    also have "join_space (map capitalize (split_hyphen cs)) = title_case True cs"
      using Cons.IH [of True] by (simp add: sp)
    finally show ?thesis using True by simp
  next
    case False
    have "join_space (word # map capitalize others) = title_case False cs"
      using Cons.IH [of False] by (simp add: sp)
    with False show ?thesis by (simp add: sp join_space_Cons)
  qed
qed

text \<open>
  The title: every hyphen becomes a space and the first character of every word is
  capitalised, the other characters staying as they are.
\<close>

lemma formatPartName_title_case: "formatPartName s = title_case True s"
proof -
  have "map capitalize (split_hyphen s) =
      capitalize (hd (split_hyphen s)) # map capitalize (tl (split_hyphen s))"
    by (cases "split_hyphen s") simp_all
  then show ?thesis
    using title_case_words [of True s] by (simp add: formatPartName_def)
qed

lemma title_case_length: "length (title_case first s) = length s"
  by (induction first s rule: title_case.induct) simp_all

lemma formatPartName_length: "length (formatPartName s) = length s"
  by (simp add: formatPartName_title_case title_case_length)

lemma formatPartName_examples:
  "formatPartName ''back-right-leg'' = ''Back Right Leg''"
  "formatPartName ''front-left-leg'' = ''Front Left Leg''"
  "formatPartName ''seat'' = ''Seat''"
  by (simp_all add: formatPartName_title_case toUpperCase_char_def)

text \<open>
  The description of a name that is neither registered nor the name of a property every
  object inherits is the fallback text.
\<close>

lemma description_fallback:
  "map_of obj nm = None \<Longrightarrow> nm \<notin> set Object_prototype_keys \<Longrightarrow>
   js_or (object_get obj nm) (JString ''Chair component'') = JString ''Chair component''"
  by (simp add: object_get_def js_or_def)

lemma description_registered:
  "map_of obj nm = Some d \<Longrightarrow> d \<noteq> [] \<Longrightarrow>
   js_or (object_get obj nm) (JString ''Chair component'') = JString d"
  by (simp add: object_get_def js_or_def)

lemma description_inherited:
  "map_of obj nm = None \<Longrightarrow> nm \<in> set Object_prototype_keys \<Longrightarrow>
   js_or (object_get obj nm) (JString ''Chair component'') = JInherited nm"
  by (simp add: object_get_def js_or_def)

lemma toString_unregistered:
  "map_of (partDescriptions InteractionHandler_new) ''toString'' = None"
  "''toString'' \<in> set Object_prototype_keys"
  by (simp_all add: InteractionHandler_new_def Object_prototype_keys_def)

text \<open>
  C7. The part name \<open>toString\<close> has no registered description, yet the panel opened for
  it gets as its description the function every object inherits under that name, not the
  text "Chair component"; its title is formatted as for any other name.
\<close>

theorem inherited_name_defeats_fallback:
  "map_of (partDescriptions (handler world0)) ''toString'' = None
   \<and> partDescription (dom (showInteractionPanel now ''toString'' world0)) =
       Some (JInherited ''toString'')
   \<and> partDescription (dom (showInteractionPanel now ''toString'' world0)) \<noteq>
       Some (JString ''Chair component'')
   \<and> partTitle (dom (showInteractionPanel now ''toString'' world0)) = Some ''ToString''"
proof -
  have d: "js_or (object_get (partDescriptions (handler world0)) ''toString'')
      (JString ''Chair component'') = JInherited ''toString''"
    by (simp add: description_inherited toString_unregistered)
  have t: "formatPartName ''toString'' = ''ToString''"
    by (simp add: formatPartName_title_case toUpperCase_char_def)
  have r: "panel_ready world0" by simp
  from sip_content [OF r, of now "''toString''"] d t
  show ?thesis by (simp add: toString_unregistered)
qed

section \<open>Camera animator: the setters and their input\<close>

text \<open>
  On every number the setters clamp: a finite speed below 0 becomes 0 and any other is
  stored as it is; a finite radius below 2 becomes 2, one above 20 becomes 20 and any
  other is stored as it is; the infinities are clamped likewise. No other field of the
  controller changes.
\<close>

lemma setters_clamp_numbers:
  "speed (setSpeed (Num v) c) = Num (if v < 0 then 0 else v)"
  "speed (setSpeed NegInfinity c) = Num 0"
  "speed (setSpeed PosInfinity c) = PosInfinity"
  "radius (setRadius (Num r) c) = Num (if r < 2 then 2 else if 20 < r then 20 else r)"
  "radius (setRadius NegInfinity c) = Num 2"
  "radius (setRadius PosInfinity c) = Num 20"
  by (simp_all add: setSpeed_def setRadius_def Math_max_def Math_min_def)

lemma setters_in_range:
  "v \<noteq> NaN \<Longrightarrow> js_le (Num 0) (speed (setSpeed v c))"
  "v \<noteq> NaN \<Longrightarrow> js_le (Num 2) (radius (setRadius v c)) \<and> js_le (radius (setRadius v c)) (Num 20)"
  by (cases v; simp add: setSpeed_def setRadius_def Math_max_def Math_min_def)+

lemma setters_frame:
  "setSpeed v c = c\<lparr>speed := speed (setSpeed v c)\<rparr>"
  "setRadius v c = c\<lparr>radius := radius (setRadius v c)\<rparr>"
  by (simp_all add: setSpeed_def setRadius_def)

text \<open>
  C8. At the input \<open>NaN\<close> the speed setter does not store the maximum of 0 and the
  input clamped to a number at least 0: it stores \<open>NaN\<close>, which is not at least 0. The
  radius setter does not store a value of the range from 2 to 20: it stores \<open>NaN\<close>,
  which is neither at least 2 nor at most 20.
\<close>

theorem setters_store_NaN:
  "speed (setSpeed NaN c) = NaN
   \<and> \<not> js_le (Num 0) (speed (setSpeed NaN c))
   \<and> radius (setRadius NaN c) = NaN
   \<and> \<not> js_le (Num 2) (radius (setRadius NaN c))
   \<and> \<not> js_le (radius (setRadius NaN c)) (Num 20)"
  by (simp add: setSpeed_def setRadius_def Math_max_def Math_min_def)

end
